theory Spec2Isabelle
  imports Complex_Main
begin

section \<open>Time, values and errors\<close>

text \<open>
  A Python \<^verbatim>\<open>datetime\<close> (timezone-aware, UTC) is the number of microseconds since the
  epoch, which is the resolution Python stores. A \<^verbatim>\<open>timedelta\<close> is a difference of two
  such numbers. \<^verbatim>\<open>total_seconds()\<close> and \<^verbatim>\<open>timestamp()\<close> return floats; they are read
  here as the exact real quotient.
\<close>

type_synonym datetime = int

definition seconds :: "int \<Rightarrow> int" where
  \<comment> \<open>\<^verbatim>\<open>timedelta(seconds=n)\<close>\<close>
  "seconds n = n * 1000000"

definition total_seconds :: "int \<Rightarrow> real" where
  "total_seconds delta = real_of_int delta / 1000000"

definition timestamp :: "datetime \<Rightarrow> real" where
  "timestamp d = real_of_int d / 1000000"

type_synonym vec = "real \<times> real \<times> real"

datatype error =
    FetchError | ParseError | ValueError | TypeError | KeyError | IndexError
  | AttributeError | IOError | FileNotFoundError | JSONDecodeError | ComputeError

text \<open>
  What \<^verbatim>\<open>isoparse\<close> returns for a bound of a request: a datetime that carries a UTC offset
  is an instant as above; one without offset is a wall-clock reading and no instant.
  Python orders two aware datetimes by their instants and raises \<^verbatim>\<open>TypeError\<close> when asked
  to order an aware and a naive one.
\<close>

datatype pydatetime = Aware datetime | Naive int

definition bind_err :: "error + 'a \<Rightarrow> ('a \<Rightarrow> error + 'b) \<Rightarrow> error + 'b" where
  \<comment> \<open>sequencing inside a \<^verbatim>\<open>try\<close> block: the first exception ends the block\<close>
  "bind_err m f = (case m of Inl e \<Rightarrow> Inl e | Inr x \<Rightarrow> f x)"

fun for_each :: "'a list \<Rightarrow> ('a \<Rightarrow> 's \<Rightarrow> error + 's) \<Rightarrow> 's \<Rightarrow> error + 's" where
  \<comment> \<open>a \<^verbatim>\<open>for\<close> loop whose body may raise\<close>
  "for_each [] f s = Inr s"
| "for_each (x # xs) f s = (case f x s of Inl e \<Rightarrow> Inl e | Inr s' \<Rightarrow> for_each xs f s')"

text \<open>
  The dictionaries with keys \<^verbatim>\<open>date\<close>, \<^verbatim>\<open>location\<close>, \<^verbatim>\<open>velocity\<close>: a raw epoch carries
  its date as the string of the ephemeris file, a decimated epoch as a datetime.
\<close>

record 'd epoch =
  date :: 'd
  location :: vec
  velocity :: vec

section \<open>Decimation of the raw epochs (\<^verbatim>\<open>get_sat_data\<close>, first loop)\<close>

text \<open>
  \<^verbatim>\<open>
  for i in range(len(raw_epoches) - 1):
      date = datetime.strptime(raw_epoches[i]['date'], "%Y-%m-%dT%H:%M:%S.%f").replace(tzinfo=utc)
      if len(epoches) == 0 or (date - epoches[-1]['date']).total_seconds() >= 60 * 4:
          epoches.append({'date': date, 'location': ..., 'velocity': ...})
  \<close>
  \<^verbatim>\<open>strptime\<close> is the library parser; it raises \<^verbatim>\<open>ValueError\<close> on a malformed date.
\<close>

definition decimate_step ::
  "(string \<Rightarrow> error + datetime) \<Rightarrow> string epoch list \<Rightarrow> nat \<Rightarrow> datetime epoch list
     \<Rightarrow> error + datetime epoch list" where
  "decimate_step strptime raw_epoches i epoches =
     bind_err (strptime (date (raw_epoches ! i))) (\<lambda>d.
       if length epoches = 0 \<or> total_seconds (d - date (last epoches)) \<ge> 60 * 4
       then Inr (epoches @ [\<lparr>date = d, location = location (raw_epoches ! i),
                              velocity = velocity (raw_epoches ! i)\<rparr>])
       else Inr epoches)"

definition decimate ::
  "(string \<Rightarrow> error + datetime) \<Rightarrow> string epoch list \<Rightarrow> error + datetime epoch list" where
  "decimate strptime raw_epoches =
     for_each [0 ..< length raw_epoches - 1] (decimate_step strptime raw_epoches) []"

section \<open>Python values and JSON\<close>

text \<open>
  The values that reach the cache, the files and the HTTP handlers. A dictionary keeps
  its insertion order, as Python's does. \<open>PObject\<close> stands for any object the JSON encoder
  does not know (a numpy array, say). Python floats are read as reals.
\<close>

datatype pyval =
    PNone
  | PStr string
  | PNum real
  | PDate datetime
  | PObject
  | PList "pyval list"
  | PDict "(string \<times> pyval) list"

datatype json =
    JNull
  | JString string
  | JNumber real
  | JArray "json list"
  | JObject "(string \<times> json) list"

definition getitem :: "pyval \<Rightarrow> string \<Rightarrow> error + pyval" where
  \<comment> \<open>\<^verbatim>\<open>d[key]\<close>\<close>
  "getitem d k =
     (case d of
        PDict kvs \<Rightarrow> (case map_of kvs k of None \<Rightarrow> Inl KeyError | Some v \<Rightarrow> Inr v)
      | _ \<Rightarrow> Inl TypeError)"

definition iter :: "pyval \<Rightarrow> error + pyval list" where
  \<comment> \<open>the elements a \<^verbatim>\<open>for\<close> loop visits: the items of a list, the characters of a string,
      the keys of a dictionary; anything else is not iterable\<close>
  "iter v =
     (case v of
        PList xs \<Rightarrow> Inr xs
      | PStr s \<Rightarrow> Inr (map (\<lambda>c. PStr [c]) s)
      | PDict kvs \<Rightarrow> Inr (map (\<lambda>kv. PStr (fst kv)) kvs)
      | _ \<Rightarrow> Inl TypeError)"

fun sequence :: "(error + 'a) list \<Rightarrow> error + 'a list" where
  "sequence [] = Inr []"
| "sequence (m # ms) = bind_err m (\<lambda>x. bind_err (sequence ms) (\<lambda>xs. Inr (x # xs)))"

definition json_datetime_serialize :: "(datetime \<Rightarrow> string) \<Rightarrow> pyval \<Rightarrow> error + pyval" where
  \<comment> \<open>\<^verbatim>\<open>_json_datetime_serialize\<close>: \<^verbatim>\<open>obj.isoformat()\<close> for a datetime, else \<^verbatim>\<open>raise TypeError\<close>\<close>
  "json_datetime_serialize isoformat obj =
     (case obj of PDate d \<Rightarrow> Inr (PStr (isoformat d)) | _ \<Rightarrow> Inl TypeError)"

definition encode_default :: "(pyval \<Rightarrow> error + pyval) option \<Rightarrow> pyval \<Rightarrow> error + json" where
  \<comment> \<open>what \<^verbatim>\<open>json.dump\<close> does with an object it cannot encode itself: without a
      \<^verbatim>\<open>default\<close> it raises, with one it encodes what \<^verbatim>\<open>default\<close> returns (here always a
      string)\<close>
  "encode_default dflt obj =
     (case dflt of
        None \<Rightarrow> Inl TypeError
      | Some f \<Rightarrow> (case f obj of
                    Inl e \<Rightarrow> Inl e
                  | Inr (PStr s) \<Rightarrow> Inr (JString s)
                  | Inr _ \<Rightarrow> Inl TypeError))"

definition encode_items :: "(string \<times> (error + json)) list \<Rightarrow> error + json" where
  "encode_items kvs =
     bind_err (sequence (map (\<lambda>kv. bind_err (snd kv) (\<lambda>j. Inr (fst kv, j))) kvs))
       (\<lambda>js. Inr (JObject js))"

primrec dumps :: "(pyval \<Rightarrow> error + pyval) option \<Rightarrow> pyval \<Rightarrow> error + json" where
  \<comment> \<open>\<^verbatim>\<open>json.dump(obj, f, default=dflt)\<close>, up to the text of the file\<close>
  "dumps dflt PNone = Inr JNull"
| "dumps dflt (PStr s) = Inr (JString s)"
| "dumps dflt (PNum x) = Inr (JNumber x)"
| "dumps dflt (PDate d) = encode_default dflt (PDate d)"
| "dumps dflt PObject = encode_default dflt PObject"
| "dumps dflt (PList xs) = bind_err (sequence (map (dumps dflt) xs)) (\<lambda>js. Inr (JArray js))"
| "dumps dflt (PDict kvs) = encode_items (map (map_prod id (dumps dflt)) kvs)"

definition json_datetime_deserialize ::
  "(string \<Rightarrow> datetime option) \<Rightarrow> (string \<times> pyval) list \<Rightarrow> pyval" where
  \<comment> \<open>\<^verbatim>\<open>_json_datetime_deserialize\<close>: a string under the key \<^verbatim>\<open>date\<close> becomes a datetime
      when \<^verbatim>\<open>fromisoformat\<close> accepts it, and stays a string otherwise\<close>
  "json_datetime_deserialize fromisoformat dct =
     PDict (map (\<lambda>(key, val).
                   if key = ''date'' then
                     (case val of
                        PStr s \<Rightarrow> (case fromisoformat s of
                                     Some d \<Rightarrow> (key, PDate d)
                                   | None \<Rightarrow> (key, val))
                      | _ \<Rightarrow> (key, val))
                   else (key, val)) dct)"

primrec loads :: "((string \<times> pyval) list \<Rightarrow> pyval) option \<Rightarrow> json \<Rightarrow> pyval" where
  \<comment> \<open>\<^verbatim>\<open>json.load(f, object_hook=hook)\<close> on a file that parses\<close>
  "loads hook JNull = PNone"
| "loads hook (JString s) = PStr s"
| "loads hook (JNumber x) = PNum x"
| "loads hook (JArray js) = PList (map (loads hook) js)"
| "loads hook (JObject kvs) =
     (case hook of
        None \<Rightarrow> PDict (map (map_prod id (loads hook)) kvs)
      | Some h \<Rightarrow> h (map (map_prod id (loads hook)) kvs))"

definition isspace :: "char \<Rightarrow> bool" where
  \<comment> \<open>\<^verbatim>\<open>str.isspace\<close> on the code points below 256, which are the ones a \<open>char\<close> holds:
      U+0009 to U+000D, U+001C to U+001F, U+0020, U+0085 and U+00A0\<close>
  "isspace c =
     (c \<in> set [CHR 0x09, CHR 0x0A, CHR 0x0B, CHR 0x0C, CHR 0x0D,
                CHR 0x1C, CHR 0x1D, CHR 0x1E, CHR 0x1F, CHR 0x20, CHR 0x85, CHR 0xA0])"

definition strip :: "string \<Rightarrow> string" where
  \<comment> \<open>\<^verbatim>\<open>str.strip()\<close>\<close>
  "strip s = rev (dropWhile isspace (rev (dropWhile isspace s)))"

section \<open>The process state and the outside world\<close>

datatype 'a stored = Missing | Corrupt | Holds 'a

datatype fault = OpenFails | WriteFails

datatype file_id = SatFile | ShadowFile | TimestampFile

datatype log_entry = Info string | Error string "error option"

text \<open>
  The three module-level cache variables (\<open>PNone\<close> is Python's \<^verbatim>\<open>None\<close>), the three files
  under \<^verbatim>\<open>data/\<close> and the log. A JSON file holds the tree its text parses to; \<open>Corrupt\<close>
  is a file that exists and does not parse (truncated or partly written).
\<close>

record state =
  sat_data_cache :: pyval
  shadow_intervals_cache :: pyval
  updated_at_cache :: pyval
  SAT_DATA_FILE :: "json stored"
  SHADOW_FILE :: "json stored"
  TIMESTAMP_FILE :: "string stored"
  logged :: "log_entry list"

text \<open>
  What the code takes from outside during one call: the outcome of the download and
  parsing stage (lines 146 to 156), the library functions (\<^verbatim>\<open>strptime\<close>, the spline, the
  frame conversion, the shadow test, \<^verbatim>\<open>isoformat\<close>, \<^verbatim>\<open>fromisoformat\<close> and \<^verbatim>\<open>isoparse\<close>),
  whether a write to a file fails, and the two readings of the clock. The shadow test receives the
  date in place of the sun's position at that date.
\<close>

record env =
  fetch :: "error + string epoch list"
  strptime :: "string \<Rightarrow> error + datetime"
  CatmullRom :: "vec list \<Rightarrow> error + (real \<Rightarrow> error + vec)"
  GCRF_to_ITRF :: "vec \<Rightarrow> vec \<Rightarrow> datetime \<Rightarrow> error + vec"
  is_in_shadow :: "datetime \<Rightarrow> vec \<Rightarrow> error + bool"
  isoformat :: "datetime \<Rightarrow> string"
  fromisoformat :: "string \<Rightarrow> datetime option"
  isoparse :: "string \<Rightarrow> error + pydatetime"
  write_fault :: "file_id \<Rightarrow> fault option"
  now_save :: datetime
  now_cache :: datetime

section \<open>Trajectory synthesis and shadow detection (\<^verbatim>\<open>get_sat_data\<close>, lines 172 to 223)\<close>

definition spline_points :: "datetime epoch list \<Rightarrow> vec list" where
  "spline_points epoches = map location epoches"

record loop_state =
  sat :: "pyval list"
  shadow_intervals :: "pyval list"
  shadow_start :: "datetime option"

definition point :: "datetime \<Rightarrow> vec \<Rightarrow> real \<Rightarrow> pyval" where
  \<comment> \<open>the dictionary appended to \<^verbatim>\<open>sat\<close>\<close>
  "point d r a =
     (case r of (x, y, z) \<Rightarrow>
        PDict [(''date'', PDate d), (''location'', PList [PNum x, PNum y, PNum z]),
               (''altitude'', PNum a)])"

definition interval :: "datetime \<Rightarrow> datetime \<Rightarrow> pyval" where
  \<comment> \<open>\<^verbatim>\<open>[a.timestamp(), b.timestamp()]\<close>\<close>
  "interval a b = PList [PNum (timestamp a), PNum (timestamp b)]"

definition steps_of :: "datetime \<Rightarrow> datetime \<Rightarrow> nat" where
  \<comment> \<open>\<^verbatim>\<open>max(1, int((end - start).total_seconds() // 5))\<close>\<close>
  "steps_of start end' = nat (max 1 \<lfloor>total_seconds (end' - start) / 5\<rfloor>)"

definition shadow_update :: "bool \<Rightarrow> datetime \<Rightarrow> loop_state \<Rightarrow> loop_state" where
  \<comment> \<open>lines 215 to 220: the two \<^verbatim>\<open>if\<close>s on \<^verbatim>\<open>in_shadow\<close> and \<^verbatim>\<open>shadow_start\<close>\<close>
  "shadow_update in_shadow d s =
     (let s1 = (if in_shadow \<and> shadow_start s = None then s\<lparr>shadow_start := Some d\<rparr> else s)
      in case shadow_start s1 of
           None \<Rightarrow> s1
         | Some b \<Rightarrow>
             if \<not> in_shadow
             then s1\<lparr>shadow_intervals := shadow_intervals s1 @ [interval b d],
                     shadow_start := None\<rparr>
             else s1)"

definition sample ::
  "env \<Rightarrow> (real \<Rightarrow> error + vec) \<Rightarrow> datetime epoch list \<Rightarrow> nat \<Rightarrow> datetime \<Rightarrow> nat \<Rightarrow> nat
     \<Rightarrow> loop_state \<Rightarrow> error + loop_state" where
  \<comment> \<open>the body of the loop over \<^verbatim>\<open>j\<close>, lines 186 to 220. The values \<^verbatim>\<open>t\<close> (the Topos),
      \<^verbatim>\<open>epos\<close>, \<^verbatim>\<open>pos\<close> and \<^verbatim>\<open>er\<close> are computed and never used; an exception in them
      counts as one of the conversion.\<close>
  "sample E curve epoches i start steps j s =
     (let t0 = real i; t1 = real (i + 1);
          t = t0 + (t1 - t0) * (real j / real steps)
      in bind_err (curve t) (\<lambda>pt.
         let d = start + seconds (int j * 5)
         in bind_err
              (if j = 0 then
                 bind_err (GCRF_to_ITRF E pt (velocity (epoches ! i)) d) (\<lambda>r.
                   let point_distance = (case r of (x, y, z) \<Rightarrow> sqrt (x\<^sup>2 + y\<^sup>2 + z\<^sup>2));
                       altitude = point_distance - 6371
                   in Inr (s\<lparr>sat := sat s @ [point d r altitude]\<rparr>))
               else Inr s)
              (\<lambda>s'. bind_err
                 (is_in_shadow E d (case pt of (x, y, z) \<Rightarrow> (x * 1000, y * 1000, z * 1000)))
                 (\<lambda>in_shadow. Inr (shadow_update in_shadow d s')))))"

definition segment ::
  "env \<Rightarrow> (real \<Rightarrow> error + vec) \<Rightarrow> datetime epoch list \<Rightarrow> nat \<Rightarrow> loop_state
     \<Rightarrow> error + loop_state" where
  \<comment> \<open>the body of the loop over \<^verbatim>\<open>i\<close>, lines 180 to 220\<close>
  "segment E curve epoches i s =
     (let start = date (epoches ! i); end' = date (epoches ! (i + 1));
          steps = steps_of start end'
      in for_each [0 ..< steps] (sample E curve epoches i start steps) s)"

definition synthesize ::
  "env \<Rightarrow> (real \<Rightarrow> error + vec) \<Rightarrow> datetime epoch list \<Rightarrow> error + loop_state" where
  "synthesize E curve epoches =
     for_each [0 ..< length epoches - 1] (segment E curve epoches)
       \<lparr>sat = [], shadow_intervals = [], shadow_start = None\<rparr>"

definition flush :: "datetime epoch list \<Rightarrow> loop_state \<Rightarrow> error + pyval list" where
  \<comment> \<open>lines 222 and 223; \<^verbatim>\<open>epoches[-1]\<close> raises on an empty list\<close>
  "flush epoches s =
     (case shadow_start s of
        None \<Rightarrow> Inr (shadow_intervals s)
      | Some b \<Rightarrow>
          if epoches = [] then Inl IndexError
          else Inr (shadow_intervals s @ [interval b (date (last epoches))]))"

definition trajectory ::
  "env \<Rightarrow> (real \<Rightarrow> error + vec) \<Rightarrow> datetime epoch list \<Rightarrow> error + pyval list \<times> pyval list" where
  \<comment> \<open>lines 177 to 223: the points and the shadow intervals of one generation\<close>
  "trajectory E curve epoches =
     bind_err (synthesize E curve epoches) (\<lambda>s.
     bind_err (flush epoches s) (\<lambda>intervals. Inr (sat s, intervals)))"

definition generate :: "env \<Rightarrow> error + pyval list \<times> pyval list" where
  \<comment> \<open>the \<^verbatim>\<open>try\<close> block of \<^verbatim>\<open>get_sat_data\<close> up to line 223\<close>
  "generate E =
     bind_err (fetch E) (\<lambda>raw_epoches.
     bind_err (decimate (strptime E) raw_epoches) (\<lambda>epoches.
     bind_err (CatmullRom E (spline_points epoches)) (\<lambda>curve.
       trajectory E curve epoches)))"


section \<open>Persistence (\<^verbatim>\<open>save_data\<close>, \<^verbatim>\<open>load_data\<close>)\<close>

definition write_file :: "fault option \<Rightarrow> error + 'a \<Rightarrow> 'a stored \<Rightarrow> 'a stored \<times> error option" where
  \<comment> \<open>\<^verbatim>\<open>with open(path, 'w') as f: ...\<close>: when \<^verbatim>\<open>open\<close> fails the file is as it was; once
      it is open it has been truncated, and an exception while the content is produced or
      written leaves a partial file\<close>
  "write_file flt content f =
     (case flt of
        Some OpenFails \<Rightarrow> (f, Some IOError)
      | Some WriteFails \<Rightarrow> (Corrupt, Some IOError)
      | None \<Rightarrow> (case content of Inl e \<Rightarrow> (Corrupt, Some e) | Inr c \<Rightarrow> (Holds c, None)))"

definition save_data :: "env \<Rightarrow> pyval \<Rightarrow> pyval \<Rightarrow> state \<Rightarrow> state \<times> bool" where
  "save_data E data intervals st =
     (let (f1, r1) = write_file (write_fault E SatFile)
                       (dumps (Some (json_datetime_serialize (isoformat E))) data)
                       (SAT_DATA_FILE st);
          st1 = st\<lparr>SAT_DATA_FILE := f1\<rparr>
      in case r1 of
           Some e \<Rightarrow> (st1\<lparr>logged := logged st1 @ [Error ''Error saving data'' (Some e)]\<rparr>, False)
         | None \<Rightarrow>
     (let (f2, r2) = write_file (write_fault E ShadowFile) (dumps None intervals)
                       (SHADOW_FILE st1);
          st2 = st1\<lparr>SHADOW_FILE := f2\<rparr>
      in case r2 of
           Some e \<Rightarrow> (st2\<lparr>logged := logged st2 @ [Error ''Error saving data'' (Some e)]\<rparr>, False)
         | None \<Rightarrow>
     (let now = now_save E;
          (f3, r3) = write_file (write_fault E TimestampFile) (Inr (isoformat E now))
                       (TIMESTAMP_FILE st2);
          st3 = st2\<lparr>TIMESTAMP_FILE := f3\<rparr>
      in case r3 of
           Some e \<Rightarrow> (st3\<lparr>logged := logged st3 @ [Error ''Error saving data'' (Some e)]\<rparr>, False)
         | None \<Rightarrow> (st3, True))))"

definition read_json :: "((string \<times> pyval) list \<Rightarrow> pyval) option \<Rightarrow> json stored \<Rightarrow> error + pyval" where
  "read_json hook f =
     (case f of
        Missing \<Rightarrow> Inl FileNotFoundError
      | Corrupt \<Rightarrow> Inl JSONDecodeError
      | Holds j \<Rightarrow> Inr (loads hook j))"

definition read_timestamp :: "(string \<Rightarrow> datetime option) \<Rightarrow> string stored \<Rightarrow> error + datetime" where
  \<comment> \<open>\<^verbatim>\<open>datetime.fromisoformat(f.read().strip())\<close>\<close>
  "read_timestamp fromiso f =
     (case f of
        Missing \<Rightarrow> Inl FileNotFoundError
      | Corrupt \<Rightarrow> Inl ValueError
      | Holds txt \<Rightarrow> (case fromiso (strip txt) of None \<Rightarrow> Inl ValueError | Some d \<Rightarrow> Inr d))"

definition load_data :: "env \<Rightarrow> state \<Rightarrow> state \<times> (pyval \<times> pyval \<times> pyval)" where
  "load_data E st =
     (if SAT_DATA_FILE st = Missing \<or> SHADOW_FILE st = Missing
      then (st\<lparr>logged := logged st @ [Info ''Data files don't exist yet, will generate new data'']\<rparr>,
            (PNone, PNone, PNone))
      else
        case bind_err (read_timestamp (fromisoformat E) (TIMESTAMP_FILE st)) (\<lambda>updated_at.
             bind_err (read_json (Some (json_datetime_deserialize (fromisoformat E)))
                         (SAT_DATA_FILE st)) (\<lambda>data.
             bind_err (read_json None (SHADOW_FILE st)) (\<lambda>intervals.
               Inr (data, intervals, updated_at))))
        of
          Inl e \<Rightarrow> (st\<lparr>logged := logged st @ [Error ''Error loading data'' (Some e)]\<rparr>,
                    (PNone, PNone, PNone))
        | Inr (data, intervals, updated_at) \<Rightarrow>
            (st\<lparr>sat_data_cache := data, shadow_intervals_cache := intervals,
                updated_at_cache := PDate updated_at\<rparr>,
             (data, intervals, PDate updated_at)))"

section \<open>Regeneration and the cache (\<^verbatim>\<open>get_sat_data\<close>, \<^verbatim>\<open>sat_data\<close>)\<close>

definition get_sat_data :: "env \<Rightarrow> state \<Rightarrow> state \<times> pyval list" where
  \<comment> \<open>the result of \<^verbatim>\<open>save_data\<close> is not looked at (line 226)\<close>
  "get_sat_data E st =
     (case generate E of
        Inl e \<Rightarrow> (st\<lparr>logged := logged st @ [Error ''Error generating satellite data'' (Some e)]\<rparr>, [])
      | Inr (points, intervals) \<Rightarrow>
          (let (st1, saved) = save_data E (PList points) (PList intervals) st
           in (st1\<lparr>sat_data_cache := PList points,
                   shadow_intervals_cache := PList intervals,
                   updated_at_cache := PDate (now_cache E)\<rparr>,
               points)))"

definition sat_data :: "env \<Rightarrow> state \<Rightarrow> state \<times> pyval" where
  "sat_data E st =
     (if sat_data_cache st = PNone \<or> shadow_intervals_cache st = PNone then
        (let (st1, (loaded_sat_data, loaded_shadow_intervals, updated_at)) = load_data E st
         in if loaded_sat_data = PNone \<or> loaded_shadow_intervals = PNone then
              (let (st2, generated) = get_sat_data E st1;
                   (st3, (loaded_sat_data, loaded_shadow_intervals, updated_at)) = load_data E st2
               in if loaded_sat_data = PNone \<or> loaded_shadow_intervals = PNone then
                    (st3\<lparr>logged := logged st3 @
                           [Error ''Failed to generate or load satellite data'' None]\<rparr>,
                     PDict [(''points'', PList []), (''shadow_intervals'', PList [])])
                  else
                    (st3, PDict [(''points'', sat_data_cache st3),
                                 (''shadow_intervals'', shadow_intervals_cache st3)]))
            else
              (st1, PDict [(''points'', sat_data_cache st1),
                           (''shadow_intervals'', shadow_intervals_cache st1)]))
      else
        (st, PDict [(''points'', sat_data_cache st),
                    (''shadow_intervals'', shadow_intervals_cache st)]))"

section \<open>The HTTP handlers (\<^verbatim>\<open>app.py\<close>)\<close>

text \<open>
  A handler receives the JSON body of the request, \<^verbatim>\<open>request.json\<close>, as a Python value.
  The result is the argument of \<^verbatim>\<open>jsonify\<close>; an exception leaves the handler and becomes
  the error response of the framework.
\<close>

definition dict_get :: "pyval \<Rightarrow> string \<Rightarrow> error + pyval" where
  \<comment> \<open>\<^verbatim>\<open>d.get(key)\<close>: \<^verbatim>\<open>None\<close> for a missing key; only a dictionary has the method\<close>
  "dict_get d k =
     (case d of
        PDict kvs \<Rightarrow> Inr (case map_of kvs k of None \<Rightarrow> PNone | Some v \<Rightarrow> v)
      | _ \<Rightarrow> Inl AttributeError)"

definition request_bound :: "env \<Rightarrow> pyval \<Rightarrow> string \<Rightarrow> error + pydatetime option" where
  \<comment> \<open>\<^verbatim>\<open>isoparse(request.json.get(key)) if request.json.get(key) is not None else None\<close>;
      \<^verbatim>\<open>isoparse\<close> raises on what is not a string\<close>
  "request_bound E request_json key =
     bind_err (dict_get request_json key) (\<lambda>v.
       if v \<noteq> PNone then
         bind_err (case v of PStr s \<Rightarrow> isoparse E s | _ \<Rightarrow> Inl TypeError) (\<lambda>dt. Inr (Some dt))
       else Inr None)"

definition date_lt :: "pyval \<Rightarrow> pydatetime \<Rightarrow> error + bool" where
  \<comment> \<open>\<^verbatim>\<open>date < start_dt\<close>; a datetime of the cache is aware\<close>
  "date_lt v b =
     (case v of
        PDate d \<Rightarrow> (case b of Aware x \<Rightarrow> Inr (d < x) | Naive x \<Rightarrow> Inl TypeError)
      | _ \<Rightarrow> Inl TypeError)"

definition date_gt :: "pyval \<Rightarrow> pydatetime \<Rightarrow> error + bool" where
  \<comment> \<open>\<^verbatim>\<open>date > end_dt\<close>\<close>
  "date_gt v b =
     (case v of
        PDate d \<Rightarrow> (case b of Aware x \<Rightarrow> Inr (d > x) | Naive x \<Rightarrow> Inl TypeError)
      | _ \<Rightarrow> Inl TypeError)"

definition get_iss_data_raw :: "env \<Rightarrow> state \<Rightarrow> pyval \<Rightarrow> state \<times> (error + pyval)" where
  "get_iss_data_raw E st request_json =
     (let (st', data) = sat_data E st
      in (st',
          bind_err (request_bound E request_json ''from'') (\<lambda>start_dt.
          bind_err (request_bound E request_json ''to'') (\<lambda>end_dt.
          bind_err (getitem data ''points'') (\<lambda>points.
          bind_err (iter points) (\<lambda>positions.
          bind_err
            (for_each positions
               (\<lambda>position res.
                  bind_err (getitem position ''date'') (\<lambda>d.
                  bind_err (case start_dt of None \<Rightarrow> Inr False | Some a \<Rightarrow> date_lt d a) (\<lambda>before.
                  bind_err (if before then Inr True
                            else (case end_dt of None \<Rightarrow> Inr False | Some b \<Rightarrow> date_gt d b))
                    (\<lambda>skip. if skip then Inr res else Inr (res @ [position])))))
               [])
            (\<lambda>res. Inr (PList res))))))))"


section \<open>Vocabulary of the specification\<close>

definition date_of :: "pyval \<Rightarrow> datetime option" where
  \<comment> \<open>the timestamp of a trajectory point\<close>
  "date_of p = (case getitem p ''date'' of Inr (PDate d) \<Rightarrow> Some d | _ \<Rightarrow> None)"

definition in_bounds :: "datetime option \<Rightarrow> datetime option \<Rightarrow> datetime \<Rightarrow> bool" where
  \<comment> \<open>\<open>from \<le> t \<le> to\<close> for each bound that is present\<close>
  "in_bounds lower upper t =
     ((case lower of None \<Rightarrow> True | Some a \<Rightarrow> a \<le> t) \<and>
      (case upper of None \<Rightarrow> True | Some b \<Rightarrow> t \<le> b))"

definition has_altitude :: "pyval \<Rightarrow> bool" where
  \<comment> \<open>the point has the key \<^verbatim>\<open>altitude\<close>, bound to a number\<close>
  "has_altitude p = (case getitem p ''altitude'' of Inr (PNum a) \<Rightarrow> True | _ \<Rightarrow> False)"

definition emitted :: "datetime \<Rightarrow> pyval \<Rightarrow> bool" where
  \<comment> \<open>a trajectory point stamped \<open>d\<close> that carries an altitude\<close>
  "emitted d p = (date_of p = Some d \<and> has_altitude p)"

definition sample_dates :: "datetime epoch list \<Rightarrow> datetime list" where
  \<comment> \<open>the timestamps of the samples, segment by segment: \<open>start + j * 5 s\<close> for
      \<open>j\<close> in \<open>[0, steps)\<close>\<close>
  "sample_dates epoches =
     concat (map (\<lambda>i. map (\<lambda>j. date (epoches ! i) + seconds (int j * 5))
                          [0 ..< steps_of (date (epoches ! i)) (date (epoches ! (i + 1)))])
                 [0 ..< length epoches - 1])"


definition start_in :: "datetime set \<Rightarrow> loop_state \<Rightarrow> bool" where
  \<comment> \<open>an open shadow interval, if there is one, started at one of the given timestamps\<close>
  "start_in D s = (case shadow_start s of None \<Rightarrow> True | Some b \<Rightarrow> b \<in> D)"

primrec roundtrips ::
  "(datetime \<Rightarrow> string) \<Rightarrow> (string \<Rightarrow> datetime option) \<Rightarrow> pyval \<Rightarrow> bool \<Rightarrow> bool" where
  \<comment> \<open>the values the points file can give back as they were; the flag says that the value
      sits directly under the key \<^verbatim>\<open>date\<close> of a dictionary. A datetime is only written and
      read back there; a string there must not read as a date.\<close>
  "roundtrips isofmt fromiso PNone under_date = True"
| "roundtrips isofmt fromiso (PStr s) under_date = (if under_date then fromiso s = None else True)"
| "roundtrips isofmt fromiso (PNum x) under_date = True"
| "roundtrips isofmt fromiso (PDate d) under_date = (under_date \<and> fromiso (isofmt d) = Some d)"
| "roundtrips isofmt fromiso PObject under_date = False"
| "roundtrips isofmt fromiso (PList xs) under_date =
     list_all (\<lambda>r. r False) (map (roundtrips isofmt fromiso) xs)"
| "roundtrips isofmt fromiso (PDict kvs) under_date =
     list_all (\<lambda>kr. snd kr (fst kr = ''date'')) (map (map_prod id (roundtrips isofmt fromiso)) kvs)"

primrec plain :: "pyval \<Rightarrow> bool" where
  \<comment> \<open>values built from \<^verbatim>\<open>None\<close>, strings, numbers, lists and dictionaries only\<close>
  "plain PNone = True"
| "plain (PStr s) = True"
| "plain (PNum x) = True"
| "plain (PDate d) = False"
| "plain PObject = False"
| "plain (PList xs) = list_all id (map plain xs)"
| "plain (PDict kvs) = list_all snd (map (map_prod id plain) kvs)"

definition fix_date :: "(string \<Rightarrow> datetime option) \<Rightarrow> pyval \<Rightarrow> pyval" where
  \<comment> \<open>what \<^verbatim>\<open>_json_datetime_deserialize\<close> makes of the value under the key \<^verbatim>\<open>date\<close>\<close>
  "fix_date fromiso v =
     (case v of
        PStr s \<Rightarrow> (case fromiso s of Some d \<Rightarrow> PDate d | None \<Rightarrow> v)
      | _ \<Rightarrow> v)"

definition hook_item :: "(string \<Rightarrow> datetime option) \<Rightarrow> string \<times> pyval \<Rightarrow> string \<times> pyval" where
  \<comment> \<open>what \<^verbatim>\<open>_json_datetime_deserialize\<close> makes of one item of a dictionary\<close>
  "hook_item fromiso kv =
     (if fst kv = ''date'' then (fst kv, fix_date fromiso (snd kv)) else kv)"

definition holds :: "error + 'a \<Rightarrow> 'a stored \<Rightarrow> bool" where
  \<comment> \<open>the file holds the content that was to be written\<close>
  "holds content f = (case f of Holds c \<Rightarrow> content = Inr c | _ \<Rightarrow> False)"

definition write_ok :: "fault option \<Rightarrow> error + 'a \<Rightarrow> bool" where
  \<comment> \<open>the write goes through: the file can be opened and written, and the content can be
      produced\<close>
  "write_ok flt content = (case content of Inl e \<Rightarrow> False | Inr c \<Rightarrow> flt = None)"

definition failed_write :: "fault option \<Rightarrow> 'a stored \<Rightarrow> 'a stored" where
  \<comment> \<open>the file after a write that failed: as it was when it could not be opened, partly
      written otherwise\<close>
  "failed_write flt old = (if flt = Some OpenFails then old else Corrupt)"





section \<open>Concrete inputs\<close>

definition t0 :: datetime where
  \<comment> \<open>2024-01-01T00:00:00+00:00\<close>
  "t0 = seconds 1704067200"

definition points3 :: "pyval list" where
  "points3 = [point t0 (6771, 0, 0) 400,
              point (t0 + seconds 5) (0, 6771, 0) 400,
              point (t0 + seconds 10) (0, 0, 6771) 400]"

definition raw3 :: "string epoch list" where
  \<comment> \<open>raw epochs at t0, t0 + 100 s and t0 + 500 s\<close>
  "raw3 = [\<lparr>date = ''2024-01-01T00:00:00.000'', location = (6771, 0, 0), velocity = (0, 7, 0)\<rparr>,
           \<lparr>date = ''2024-01-01T00:01:40.000'', location = (6771, 0, 0), velocity = (0, 7, 0)\<rparr>,
           \<lparr>date = ''2024-01-01T00:08:20.000'', location = (6771, 0, 0), velocity = (0, 7, 0)\<rparr>]"

definition raw240 :: "string epoch list" where
  \<comment> \<open>raw epochs at t0, t0 + 240 s and t0 + 480 s\<close>
  "raw240 = [\<lparr>date = ''2024-01-01T00:00:00.000'', location = (6771, 0, 0), velocity = (0, 7, 0)\<rparr>,
             \<lparr>date = ''2024-01-01T00:04:00.000'', location = (6771, 0, 0), velocity = (0, 7, 0)\<rparr>,
             \<lparr>date = ''2024-01-01T00:08:00.000'', location = (6771, 0, 0), velocity = (0, 7, 0)\<rparr>]"

definition strptime3 :: "string \<Rightarrow> error + datetime" where
  \<comment> \<open>the parser on the dates above\<close>
  "strptime3 s =
     (if s = ''2024-01-01T00:00:00.000'' then Inr t0
      else if s = ''2024-01-01T00:01:40.000'' then Inr (t0 + seconds 100)
      else if s = ''2024-01-01T00:04:00.000'' then Inr (t0 + seconds 240)
      else if s = ''2024-01-01T00:08:00.000'' then Inr (t0 + seconds 480)
      else if s = ''2024-01-01T00:08:20.000'' then Inr (t0 + seconds 500)
      else Inl ValueError)"

definition isoparse3 :: "string \<Rightarrow> error + pydatetime" where
  \<comment> \<open>the parser on two spellings of 2024-01-01, five seconds past midnight: with the UTC
      offset, and without any offset\<close>
  "isoparse3 s =
     (if s = ''2024-01-01T00:00:05+00:00'' then Inr (Aware (t0 + seconds 5))
      else if s = ''2024-01-01T00:00:05'' then Inr (Naive (t0 + seconds 5))
      else Inl ValueError)"

definition request_aware :: pyval where
  \<comment> \<open>the body \<^verbatim>\<open>{"from": "2024-01-01T00:00:05+00:00", "to": "2024-01-01T00:00:05+00:00"}\<close>\<close>
  "request_aware = PDict [(''from'', PStr ''2024-01-01T00:00:05+00:00''),
                          (''to'', PStr ''2024-01-01T00:00:05+00:00'')]"

definition request_naive :: pyval where
  \<comment> \<open>the body \<^verbatim>\<open>{"from": "2024-01-01T00:00:05", "to": "2024-01-01T00:00:05"}\<close>\<close>
  "request_naive = PDict [(''from'', PStr ''2024-01-01T00:00:05''),
                          (''to'', PStr ''2024-01-01T00:00:05'')]"

definition flat_curve :: "real \<Rightarrow> error + vec" where
  "flat_curve t = Inr (6771, 0, 0)"

definition epoch_at :: "datetime \<Rightarrow> datetime epoch" where
  "epoch_at d = \<lparr>date = d, location = (6771, 0, 0), velocity = (0, 7, 0)\<rparr>"

definition good_env :: env where
  \<comment> \<open>every collaborator answers; the satellite is in shadow from t0 + 100 s (excluded) to
      t0 + 200 s (included)\<close>
  "good_env =
     \<lparr>fetch = Inr raw240,
      strptime = strptime3,
      CatmullRom = (\<lambda>vs. if length vs < 2 then Inl ValueError else Inr flat_curve),
      GCRF_to_ITRF = (\<lambda>pt v d. Inr pt),
      is_in_shadow = (\<lambda>d pt. Inr (t0 + seconds 100 < d \<and> d \<le> t0 + seconds 200)),
      isoformat = (\<lambda>d. if d = t0 then ''2024-01-01T00:00:00+00:00''
                        else if d = t0 + seconds 600 then ''2024-01-01T00:10:00+00:00''
                        else ''later''),
      fromisoformat = (\<lambda>s. if s = ''2024-01-01T00:00:00+00:00'' then Some t0
                            else if s = ''2024-01-01T00:10:00+00:00'' then Some (t0 + seconds 600)
                            else None),
      isoparse = isoparse3,
      write_fault = (\<lambda>f. None),
      now_save = t0 + seconds 600, now_cache = t0 + seconds 600\<rparr>"

definition late_shadow_env :: env where
  \<comment> \<open>as \<open>good_env\<close>, in shadow at every sample after t0\<close>
  "late_shadow_env = good_env\<lparr>is_in_shadow := (\<lambda>d pt. Inr (t0 < d))\<rparr>"

definition cold_state :: state where
  \<comment> \<open>a process that has just started on an empty data directory\<close>
  "cold_state =
     \<lparr>sat_data_cache = PNone, shadow_intervals_cache = PNone, updated_at_cache = PNone,
      SAT_DATA_FILE = Missing, SHADOW_FILE = Missing, TIMESTAMP_FILE = Missing, logged = []\<rparr>"

definition old_points :: "pyval list" where
  "old_points = [point t0 (0, 6771, 0) 400]"

definition old_intervals :: "pyval list" where
  "old_intervals = [interval t0 (t0 + seconds 5)]"

definition new_points :: "pyval list" where
  "new_points = [point t0 (6771, 0, 0) 400]"

definition new_intervals :: "pyval list" where
  "new_intervals = [interval (t0 + seconds 105) (t0 + seconds 205)]"

definition sat_fault_env :: env where
  \<comment> \<open>as \<open>good_env\<close>, but the points file cannot be opened for writing\<close>
  "sat_fault_env = good_env\<lparr>write_fault := (\<lambda>f. if f = SatFile then Some OpenFails else None)\<rparr>"

definition shadow_fault_env :: env where
  \<comment> \<open>as \<open>good_env\<close>, but the shadow file cannot be opened for writing\<close>
  "shadow_fault_env =
     good_env\<lparr>write_fault := (\<lambda>f. if f = ShadowFile then Some OpenFails else None)\<rparr>"

definition first_generation :: state where
  \<comment> \<open>the files after an earlier generation was saved at t0\<close>
  "first_generation =
     fst (save_data (good_env\<lparr>now_save := t0\<rparr>) (PList old_points) (PList old_intervals)
            cold_state)"

definition torn_state :: state where
  \<comment> \<open>then a second generation is saved, and the write of the shadow file fails\<close>
  "torn_state =
     fst (save_data shadow_fault_env (PList new_points) (PList new_intervals) first_generation)"

definition failing_env :: env where
  \<comment> \<open>the download fails, the disk takes every write\<close>
  "failing_env =
     \<lparr>fetch = Inl FetchError,
      strptime = (\<lambda>s. Inl ValueError),
      CatmullRom = (\<lambda>vs. Inl ValueError),
      GCRF_to_ITRF = (\<lambda>pt v d. Inl ComputeError),
      is_in_shadow = (\<lambda>d pt. Inr False),
      isoformat = (\<lambda>d. []),
      fromisoformat = (\<lambda>s. None),
      isoparse = isoparse3,
      write_fault = (\<lambda>f. None),
      now_save = t0, now_cache = t0\<rparr>"

definition cached3 :: state where
  "cached3 =
     cold_state\<lparr>sat_data_cache := PList points3,
                shadow_intervals_cache := PList [interval t0 (t0 + seconds 5)],
                updated_at_cache := PDate t0\<rparr>"

section \<open>Theorems\<close>

text \<open>
  C2. On raw epochs at t0, t0 + 100 s and t0 + 500 s the loop runs over the indices 0 and 1
  only: the epoch at t0 is kept, the one at t0 + 100 s is skipped, and the one at t0 + 500 s
  is never looked at. The decimated sequence has one entry, not two.
\<close>

theorem decimate_three_epochs:
  "decimate strptime3 raw3 = Inr [epoch_at t0]
   \<and> length (projr (decimate strptime3 raw3)) = 1"
  by (simp add: decimate_def raw3_def decimate_step_def strptime3_def bind_err_def
      total_seconds_def seconds_def upt_conv_Cons epoch_at_def)

subsection \<open>Helper facts\<close>

lemma bind_err_Inr [simp]: "bind_err (Inr x) f = f x"
  by (simp add: bind_err_def)

lemma bind_err_Inl [simp]: "bind_err (Inl e) f = Inl e"
  by (simp add: bind_err_def)

lemma getitem_PDict:
  "getitem (PDict kvs) k = (case map_of kvs k of None \<Rightarrow> Inl KeyError | Some v \<Rightarrow> Inr v)"
  by (simp add: getitem_def)

lemma iter_PList [simp]: "iter (PList xs) = Inr xs"
  by (simp add: iter_def)

subsection \<open>Queries\<close>

lemma filter_loop:
  assumes "\<forall>p\<in>set ps. date_of p \<noteq> None"
  shows "for_each ps
           (\<lambda>position res.
              bind_err (getitem position ''date'') (\<lambda>d.
              bind_err (case map_option Aware lower of None \<Rightarrow> Inr False
                        | Some a \<Rightarrow> date_lt d a) (\<lambda>before.
              bind_err (if before then Inr True
                        else (case map_option Aware upper of None \<Rightarrow> Inr False
                              | Some b \<Rightarrow> date_gt d b))
                (\<lambda>skip. if skip then Inr res else Inr (res @ [position])))))
           acc = Inr (acc @ filter (\<lambda>p. in_bounds lower upper (the (date_of p))) ps)"
  using assms
proof (induction ps arbitrary: acc)
  case Nil
  then show ?case by simp
next
  case (Cons p ps)
  from Cons.prems obtain d where d: "getitem p ''date'' = Inr (PDate d)"
    by (auto simp: date_of_def split: sum.splits pyval.splits)
  have rest: "\<forall>p\<in>set ps. date_of p \<noteq> None" using Cons.prems by simp
  show ?case
    using Cons.IH[OF rest] d
    by (auto simp: bind_err_def date_of_def in_bounds_def date_lt_def date_gt_def
        split: option.splits)
qed

lemma sat_data_cached:
  "sat_data_cache st \<noteq> PNone \<Longrightarrow> shadow_intervals_cache st \<noteq> PNone \<Longrightarrow>
   sat_data E st = (st, PDict [(''points'', sat_data_cache st),
                               (''shadow_intervals'', shadow_intervals_cache st)])"
  by (simp add: sat_data_def)

text \<open>
  With a cache in memory whose points all carry a datetime under \<^verbatim>\<open>date\<close>, and bounds that
  are absent or carry a UTC offset, the raw query returns exactly the cached points whose
  timestamp lies within the bounds that are present, both ends inclusive, in the order of
  the cache.
\<close>

lemma raw_query_cached:
  assumes "sat_data_cache st = PList ps"
    and "shadow_intervals_cache st \<noteq> PNone"
    and "\<forall>p\<in>set ps. date_of p \<noteq> None"
    and "request_bound E request_json ''from'' = Inr (map_option Aware lower)"
    and "request_bound E request_json ''to'' = Inr (map_option Aware upper)"
  shows "snd (get_iss_data_raw E st request_json) =
           Inr (PList (filter (\<lambda>p. in_bounds lower upper (the (date_of p))) ps))"
proof -
  have sd: "sat_data E st =
      (st, PDict [(''points'', PList ps), (''shadow_intervals'', shadow_intervals_cache st)])"
    using assms(1,2) by (simp add: sat_data_cached)
  have pts: "getitem (PDict [(''points'', PList ps),
                (''shadow_intervals'', shadow_intervals_cache st)]) ''points'' = Inr (PList ps)"
    by (simp add: getitem_PDict)
  show ?thesis
    by (simp only: get_iss_data_raw_def sd Let_def prod.case snd_conv assms(4) assms(5)
        bind_err_Inr pts iter_PList filter_loop [OF assms(3)] append_Nil)
qed

lemma request_aware_bounds:
  "request_bound failing_env request_aware ''from'' = Inr (map_option Aware (Some (t0 + seconds 5)))"
  "request_bound failing_env request_aware ''to'' = Inr (map_option Aware (Some (t0 + seconds 5)))"
  by (simp_all add: request_bound_def dict_get_def request_aware_def failing_env_def
      isoparse3_def)

lemma request_naive_bounds:
  "request_bound failing_env request_naive ''from'' = Inr (Some (Naive (t0 + seconds 5)))"
  "request_bound failing_env request_naive ''to'' = Inr (Some (Naive (t0 + seconds 5)))"
  by (simp_all add: request_bound_def dict_get_def request_naive_def failing_env_def
      isoparse3_def)

lemma raw_query_aware:
  "snd (get_iss_data_raw failing_env cached3 request_aware) =
     Inr (PList [point (t0 + seconds 5) (0, 6771, 0) 400])"
proof -
  have a: "sat_data_cache cached3 = PList points3" by (simp add: cached3_def)
  have b: "shadow_intervals_cache cached3 \<noteq> PNone" by (simp add: cached3_def)
  have c: "\<forall>p\<in>set points3. date_of p \<noteq> None"
    by (simp add: points3_def point_def date_of_def getitem_def)
  show ?thesis
    using raw_query_cached [OF a b c request_aware_bounds]
    by (simp add: points3_def point_def date_of_def getitem_def in_bounds_def seconds_def)
qed

text \<open>
  C8. The bounds reach the comparison as \<^verbatim>\<open>isoparse\<close> returns them. On the cache with
  points at t0, t0 + 5 s and t0 + 10 s, the request from t0 + 5 s to t0 + 5 s written with
  the UTC offset returns the single point at t0 + 5 s. The same request written without
  offset, which \<^verbatim>\<open>isoparse\<close> accepts, makes \<^verbatim>\<open>date < start_dt\<close> raise \<^verbatim>\<open>TypeError\<close> at the
  first cached point: the query returns no points at all.
\<close>

theorem get_iss_data_raw_naive_bound:
  "snd (get_iss_data_raw failing_env cached3 request_aware) =
     Inr (PList [point (t0 + seconds 5) (0, 6771, 0) 400])
   \<and> snd (get_iss_data_raw failing_env cached3 request_naive) = Inl TypeError"
proof -
  have a: "sat_data_cache cached3 \<noteq> PNone" "shadow_intervals_cache cached3 \<noteq> PNone"
    by (simp_all add: cached3_def)
  have "snd (get_iss_data_raw failing_env cached3 request_naive) = Inl TypeError"
    by (simp add: get_iss_data_raw_def sat_data_cached [OF a] request_naive_bounds
        getitem_PDict)
       (simp add: cached3_def points3_def point_def getitem_def date_lt_def)
  then show ?thesis by (simp add: raw_query_aware)
qed



subsection \<open>The cache on a cold start\<close>

text \<open>
  C6. When a query finds no cache in memory, the load from the files yields nothing, and
  the load after the regeneration yields nothing either, \<^verbatim>\<open>sat_data()\<close> returns the record
  with no points and no shadow intervals. It returns a value: every exception on the way
  has been caught and logged.
\<close>

theorem sat_data_degrades_to_empty:
  assumes "sat_data_cache st = PNone \<or> shadow_intervals_cache st = PNone"
    and "load_data E st = (st1, (a, b, u))" and "a = PNone \<or> b = PNone"
    and "get_sat_data E st1 = (st2, generated)"
    and "load_data E st2 = (st3, (a', b', u'))" and "a' = PNone \<or> b' = PNone"
  shows "snd (sat_data E st) = PDict [(''points'', PList []), (''shadow_intervals'', PList [])]"
  using assms by (simp add: sat_data_def)

theorem sat_data_degrades_to_empty_witness:
  "(sat_data_cache cold_state = PNone \<or> shadow_intervals_cache cold_state = PNone) \<and>
   snd (load_data failing_env cold_state) = (PNone, PNone, PNone) \<and>
   snd (load_data failing_env
          (fst (get_sat_data failing_env (fst (load_data failing_env cold_state)))))
     = (PNone, PNone, PNone) \<and>
   snd (sat_data failing_env cold_state) =
     PDict [(''points'', PList []), (''shadow_intervals'', PList [])]"
proof -
  define st1 where
    "st1 = cold_state\<lparr>logged := [Info ''Data files don't exist yet, will generate new data'']\<rparr>"
  define st2 where
    "st2 = st1\<lparr>logged := logged st1 @
                  [Error ''Error generating satellite data'' (Some FetchError)]\<rparr>"
  define st3 where
    "st3 = st2\<lparr>logged := logged st2 @
                  [Info ''Data files don't exist yet, will generate new data'']\<rparr>"
  have h1: "sat_data_cache cold_state = PNone \<or> shadow_intervals_cache cold_state = PNone"
    by (simp add: cold_state_def)
  have h2: "load_data failing_env cold_state = (st1, (PNone, PNone, PNone))"
    by (simp add: load_data_def cold_state_def st1_def)
  have h3: "get_sat_data failing_env st1 = (st2, [])"
    by (simp add: get_sat_data_def generate_def failing_env_def st2_def)
  have h4: "load_data failing_env st2 = (st3, (PNone, PNone, PNone))"
    by (simp add: load_data_def cold_state_def st1_def st2_def st3_def)
  have h5: "PNone = PNone \<or> PNone = PNone" by simp
  show ?thesis
    using sat_data_degrades_to_empty [OF h1 h2 h5 h3 h4 h5] h1
    by (simp add: h2 h3 h4)
qed

subsection \<open>Trajectory synthesis and shadow detection\<close>

lemma date_of_point [simp]: "date_of (point d r a) = Some d"
  by (cases r) (simp add: date_of_def point_def getitem_def)

lemma has_altitude_point [simp]: "has_altitude (point d r a)"
  by (cases r) (simp add: has_altitude_def point_def getitem_def)

lemma sat_shadow_update [simp]: "sat (shadow_update b d s) = sat s"
  by (simp add: shadow_update_def Let_def split: option.splits)

lemma sample_zero:
  assumes "sample E curve epoches i start steps 0 s = Inr s'"
  shows "\<exists>p. sat s' = sat s @ [p] \<and> emitted start p"
  using assms
  by (auto simp: sample_def Let_def bind_err_def seconds_def emitted_def split: sum.splits)

lemma sample_nonzero:
  assumes "sample E curve epoches i start steps j s = Inr s'" and "j \<noteq> 0"
  shows "sat s' = sat s"
  using assms
  by (auto simp: sample_def Let_def bind_err_def split: sum.splits)

lemma for_each_nonzero:
  assumes "for_each js (sample E curve epoches i start steps) s = Inr s'" and "0 \<notin> set js"
  shows "sat s' = sat s"
  using assms
proof (induction js arbitrary: s)
  case Nil
  then show ?case by simp
next
  case (Cons j js)
  then show ?case
    by (auto split: sum.splits dest: sample_nonzero)
qed

lemma steps_of_pos: "0 < steps_of a b"
  by (simp add: steps_of_def)

lemma segment_sat:
  assumes "segment E curve epoches i s = Inr s'"
  shows "\<exists>p. sat s' = sat s @ [p] \<and> emitted (date (epoches ! i)) p"
proof -
  let ?start = "date (epoches ! i)"
  let ?steps = "steps_of ?start (date (epoches ! (i + 1)))"
  have "[0 ..< ?steps] = 0 # [1 ..< ?steps]"
    using steps_of_pos [of ?start "date (epoches ! (i + 1))"] by (simp add: upt_conv_Cons)
  with assms obtain s1 where
    s1: "sample E curve epoches i ?start ?steps 0 s = Inr s1" and
    rest: "for_each [1 ..< ?steps] (sample E curve epoches i ?start ?steps) s1 = Inr s'"
    by (auto simp: segment_def Let_def split: sum.splits)
  from rest have "sat s' = sat s1" by (rule for_each_nonzero) simp
  with sample_zero [OF s1] show ?thesis by simp
qed

lemma segments_sat:
  assumes "for_each is (segment E curve epoches) s = Inr s'"
  shows "\<exists>ps. sat s' = sat s @ ps \<and> list_all2 (\<lambda>i p. emitted (date (epoches ! i)) p) is ps"
  using assms
proof (induction "is" arbitrary: s)
  case Nil
  then show ?case by simp
next
  case (Cons i "is")
  from Cons.prems obtain s1 where
    s1: "segment E curve epoches i s = Inr s1" and
    rest: "for_each is (segment E curve epoches) s1 = Inr s'"
    by (auto split: sum.splits)
  from segment_sat [OF s1] obtain p where
    p: "sat s1 = sat s @ [p]" "emitted (date (epoches ! i)) p"
    by blast
  from Cons.IH [OF rest] obtain ps where
    ps: "sat s' = sat s1 @ ps" "list_all2 (\<lambda>i p. emitted (date (epoches ! i)) p) is ps"
    by blast
  have "sat s' = sat s @ (p # ps)" using p ps by simp
  moreover have "list_all2 (\<lambda>i p. emitted (date (epoches ! i)) p) (i # is) (p # ps)"
    using p ps by simp
  ultimately show ?case by blast
qed

lemma synthesize_sat:
  assumes "synthesize E curve epoches = Inr s"
  shows "list_all2 emitted (butlast (map date epoches)) (sat s)"
proof -
  from assms have "for_each [0 ..< length epoches - 1] (segment E curve epoches)
      \<lparr>sat = [], shadow_intervals = [], shadow_start = None\<rparr> = Inr s"
    by (simp add: synthesize_def)
  from segments_sat [OF this]
  have all: "list_all2 (\<lambda>i p. emitted (date (epoches ! i)) p) [0 ..< length epoches - 1] (sat s)"
    by simp
  have "butlast (map date epoches) = map (\<lambda>i. date (epoches ! i)) [0 ..< length epoches - 1]"
    by (rule nth_equalityI) (simp_all add: nth_butlast)
  with all show ?thesis by (simp add: list_all2_map1)
qed

lemma emitted_dates:
  assumes "list_all2 emitted ds ps"
  shows "map date_of ps = map Some ds" and "\<forall>p\<in>set ps. has_altitude p"
  using assms by (induction rule: list_all2_induct) (simp_all add: emitted_def)



lemma for_each_invariant:
  assumes "for_each xs f s = Inr s'" and "P s"
    and "\<And>x s s'. x \<in> set xs \<Longrightarrow> P s \<Longrightarrow> f x s = Inr s' \<Longrightarrow> P s'"
  shows "P s'"
  using assms
proof (induction xs arbitrary: s)
  case Nil
  then show ?case by simp
next
  case (Cons x xs)
  from Cons.prems(1) obtain s1 where s1: "f x s = Inr s1" and rest: "for_each xs f s1 = Inr s'"
    by (auto split: sum.splits)
  have "P s1" using Cons.prems(3) [of x s s1] Cons.prems(2) s1 by simp
  moreover have "\<And>y t t'. y \<in> set xs \<Longrightarrow> P t \<Longrightarrow> f y t = Inr t' \<Longrightarrow> P t'"
    by (metis Cons.prems(3) list.set_intros(2))
  ultimately show ?case using Cons.IH [OF rest] by blast
qed

lemma shadow_update_start_in:
  "start_in D s \<Longrightarrow> d \<in> D \<Longrightarrow> start_in D (shadow_update b d s)"
  by (auto simp: start_in_def shadow_update_def Let_def split: option.splits)

lemma sample_start_in:
  assumes "sample E curve epoches i start steps j s = Inr s'"
    and "start_in D s" and "start + seconds (int j * 5) \<in> D"
  shows "start_in D s'"
proof -
  from assms(1) obtain s1 b where
    "s' = shadow_update b (start + seconds (int j * 5)) s1" and "shadow_start s1 = shadow_start s"
    by (auto simp: sample_def Let_def bind_err_def split: sum.splits if_splits)
  moreover from this assms(2) have "start_in D s1" by (simp add: start_in_def)
  ultimately show ?thesis using assms(3) by (simp add: shadow_update_start_in)
qed

lemma segment_start_in:
  assumes "segment E curve epoches i s = Inr s'" and "start_in D s"
    and "i < length epoches - 1" and "set (sample_dates epoches) \<subseteq> D"
  shows "start_in D s'"
proof -
  let ?start = "date (epoches ! i)"
  let ?steps = "steps_of ?start (date (epoches ! (i + 1)))"
  from assms(1) have run: "for_each [0 ..< ?steps] (sample E curve epoches i ?start ?steps) s = Inr s'"
    by (simp add: segment_def Let_def)
  show ?thesis
  proof (rule for_each_invariant [where P = "start_in D", OF run assms(2)])
    fix j s1 s2
    assume j: "j \<in> set [0 ..< ?steps]" and inv: "start_in D s1"
      and step: "sample E curve epoches i ?start ?steps j s1 = Inr s2"
    from j assms(3) have "?start + seconds (int j * 5) \<in> set (sample_dates epoches)"
      unfolding sample_dates_def by (auto intro!: bexI [of _ i])
    with assms(4) have "?start + seconds (int j * 5) \<in> D" by blast
    with step inv show "start_in D s2" by (rule sample_start_in)
  qed
qed

lemma synthesize_start_in:
  assumes "synthesize E curve epoches = Inr s"
  shows "start_in (set (sample_dates epoches)) s"
proof -
  from assms have run: "for_each [0 ..< length epoches - 1] (segment E curve epoches)
      \<lparr>sat = [], shadow_intervals = [], shadow_start = None\<rparr> = Inr s"
    by (simp add: synthesize_def)
  show ?thesis
  proof (rule for_each_invariant [where P = "start_in (set (sample_dates epoches))", OF run])
    show "start_in (set (sample_dates epoches)) \<lparr>sat = [], shadow_intervals = [], shadow_start = None\<rparr>"
      by (simp add: start_in_def)
  next
    fix i s1 s2
    assume "i \<in> set [0 ..< length epoches - 1]" and "start_in (set (sample_dates epoches)) s1"
      and "segment E curve epoches i s1 = Inr s2"
    then show "start_in (set (sample_dates epoches)) s2"
      using segment_start_in [of E curve epoches i s1 s2 "set (sample_dates epoches)"] by simp
  qed
qed

lemma floor_total_seconds: "\<lfloor>total_seconds d / 5\<rfloor> = d div 5000000"
proof -
  have "total_seconds d / 5 = real_of_int d / real_of_int 5000000"
    by (simp add: total_seconds_def)
  then show ?thesis by (simp only: floor_divide_of_int_eq)
qed

lemma steps_of_div: "steps_of a b = nat (max 1 ((b - a) div 5000000))"
  by (simp add: steps_of_def floor_total_seconds)

lemma sample_before_end:
  assumes "a < b" and "j < steps_of a b"
  shows "a + seconds (int j * 5) < b"
proof (cases "(b - a) div 5000000 \<le> 1")
  case True
  with assms(2) have "j = 0" by (simp add: steps_of_div)
  with assms(1) show ?thesis by (simp add: seconds_def)
next
  case False
  with assms(2) have "int j + 1 \<le> (b - a) div 5000000" by (simp add: steps_of_div)
  then have "(int j + 1) * 5000000 \<le> (b - a) div 5000000 * 5000000"
    by (simp only: mult_le_cancel_right) simp
  also have "\<dots> \<le> b - a"
    using div_mult_mod_eq [of "b - a" 5000000] pos_mod_sign [of 5000000 "b - a"] by linarith
  finally show ?thesis by (simp add: seconds_def algebra_simps)
qed

lemma samples_before_last:
  assumes "sorted_wrt (<) (map date epoches)" and "d \<in> set (sample_dates epoches)"
  shows "d < date (last epoches)"
proof -
  from assms(2) obtain i j where i: "i < length epoches - 1"
    and j: "j < steps_of (date (epoches ! i)) (date (epoches ! (i + 1)))"
    and d: "d = date (epoches ! i) + seconds (int j * 5)"
    by (auto simp: sample_dates_def)
  from i have ne: "epoches \<noteq> []" by auto
  from assms(1) i have lt: "date (epoches ! i) < date (epoches ! (i + 1))"
    by (auto simp: sorted_wrt_iff_nth_less)
  have "date (epoches ! (i + 1)) \<le> date (epoches ! (length epoches - 1))"
  proof (cases "i + 1 = length epoches - 1")
    case True then show ?thesis by simp
  next
    case False
    with i have "i + 1 < length epoches - 1" by simp
    with assms(1) have "date (epoches ! (i + 1)) < date (epoches ! (length epoches - 1))"
      by (auto simp: sorted_wrt_iff_nth_less)
    then show ?thesis by simp
  qed
  moreover have "last epoches = epoches ! (length epoches - 1)"
    using ne by (rule last_conv_nth)
  ultimately show ?thesis
    using sample_before_end [OF lt j] d by simp
qed

lemma date_epoch_at [simp]: "date (epoch_at d) = d"
  by (simp add: epoch_at_def)

lemma sqrt_6771: "sqrt 45846441 = (6771::real)"
  by (rule real_sqrt_unique) simp_all

lemma steps_240: "steps_of t0 (t0 + 240000000) = 48"
  by (simp add: steps_of_def total_seconds_def)


lemma synthesize_good:
  "synthesize good_env flat_curve [epoch_at t0, epoch_at (t0 + seconds 240)] =
     Inr \<lparr>sat = [point t0 (6771, 0, 0) 400],
          shadow_intervals = [interval (t0 + seconds 105) (t0 + seconds 205)],
          shadow_start = None\<rparr>"
  by (simp add: synthesize_def segment_def epoch_at_def steps_240 upt_conv_Cons
        sample_def Let_def good_env_def flat_curve_def shadow_update_def seconds_def sqrt_6771)


lemma synthesize_late:
  "synthesize late_shadow_env flat_curve [epoch_at t0, epoch_at (t0 + seconds 240)] =
     Inr \<lparr>sat = [point t0 (6771, 0, 0) 400], shadow_intervals = [],
          shadow_start = Some (t0 + seconds 5)\<rparr>"
  by (simp add: synthesize_def segment_def epoch_at_def steps_240 upt_conv_Cons
        sample_def Let_def late_shadow_env_def good_env_def flat_curve_def shadow_update_def
        seconds_def sqrt_6771)

lemma last_sample_240:
  "last (sample_dates [epoch_at t0, epoch_at (t0 + seconds 240)]) = t0 + seconds 235"
  by (simp add: sample_dates_def epoch_at_def seconds_def steps_240 last_map)

lemma decimate_240: "decimate strptime3 raw240 = Inr [epoch_at t0, epoch_at (t0 + seconds 240)]"
  by (simp add: decimate_def raw240_def decimate_step_def strptime3_def
      total_seconds_def seconds_def upt_conv_Cons epoch_at_def)

lemma generate_good:
  "generate good_env =
     Inr ([point t0 (6771, 0, 0) 400], [interval (t0 + seconds 105) (t0 + seconds 205)])"
proof -
  have "fetch good_env = Inr raw240" "strptime good_env = strptime3"
    "CatmullRom good_env (spline_points [epoch_at t0, epoch_at (t0 + seconds 240)]) = Inr flat_curve"
    by (simp_all add: good_env_def spline_points_def)
  then show ?thesis
    by (simp add: generate_def decimate_240 trajectory_def synthesize_good flush_def)
qed

lemma generate_late:
  "generate late_shadow_env =
     Inr ([point t0 (6771, 0, 0) 400], [interval (t0 + seconds 5) (t0 + seconds 240)])"
proof -
  have "fetch late_shadow_env = Inr raw240" "strptime late_shadow_env = strptime3"
    "CatmullRom late_shadow_env (spline_points [epoch_at t0, epoch_at (t0 + seconds 240)]) =
       Inr flat_curve"
    by (simp_all add: late_shadow_env_def good_env_def spline_points_def)
  then show ?thesis
    by (simp add: generate_def decimate_240 trajectory_def synthesize_late flush_def)
qed










text \<open>
  C10. Every point of a generation run carries the key \<^verbatim>\<open>altitude\<close>, bound to a number;
  these are the points \<^verbatim>\<open>get_sat_data\<close> returns and puts into the cache.
\<close>

theorem generated_points_have_altitude:
  assumes "generate E = Inr (points, intervals)"
  shows "(\<forall>p\<in>set points. has_altitude p)
       \<and> snd (get_sat_data E st) = points
       \<and> sat_data_cache (fst (get_sat_data E st)) = PList points"
proof -
  from assms obtain curve epoches s where "synthesize E curve epoches = Inr s" and "sat s = points"
    by (auto simp: generate_def trajectory_def bind_err_def split: sum.splits)
  then have "\<forall>p\<in>set points. has_altitude p"
    using emitted_dates(2) [OF synthesize_sat] by blast
  then show ?thesis using assms
    by (simp add: get_sat_data_def split: prod.splits)
qed

theorem generated_points_have_altitude_witness:
  "generate good_env =
     Inr ([point t0 (6771, 0, 0) 400], [interval (t0 + seconds 105) (t0 + seconds 205)])
   \<and> has_altitude (point t0 (6771, 0, 0) 400)
   \<and> snd (get_sat_data good_env cold_state) = [point t0 (6771, 0, 0) 400]
   \<and> sat_data_cache (fst (get_sat_data good_env cold_state)) = PList [point t0 (6771, 0, 0) 400]"
  using generated_points_have_altitude [OF generate_good, of cold_state] generate_good
  by simp

text \<open>
  C3, as stated, fails. The raw epochs at t0, t0 + 240 s and t0 + 480 s decimate to the
  epochs t0 and t0 + 240 s, whose segment is sampled every 5 s from t0 to t0 + 235 s. With
  the shadow test false at t0 and true at every later sample, the detector is still
  eclipsed after the last sample, and the generation emits the one interval
  [t0 + 5 s, t0 + 240 s]: its end is not the timestamp of the last sample, t0 + 235 s.
\<close>

theorem flush_end_counterexample:
  "decimate strptime3 raw240 = Inr [epoch_at t0, epoch_at (t0 + seconds 240)]
   \<and> synthesize late_shadow_env flat_curve [epoch_at t0, epoch_at (t0 + seconds 240)] =
       Inr \<lparr>sat = [point t0 (6771, 0, 0) 400], shadow_intervals = [],
            shadow_start = Some (t0 + seconds 5)\<rparr>
   \<and> last (sample_dates [epoch_at t0, epoch_at (t0 + seconds 240)]) = t0 + seconds 235
   \<and> generate late_shadow_env =
       Inr ([point t0 (6771, 0, 0) 400], [interval (t0 + seconds 5) (t0 + seconds 240)])
   \<and> interval (t0 + seconds 5) (t0 + seconds 240) \<noteq> interval (t0 + seconds 5) (t0 + seconds 235)"
proof -
  have "interval (t0 + seconds 5) (t0 + seconds 240) \<noteq> interval (t0 + seconds 5) (t0 + seconds 235)"
    by (simp add: interval_def timestamp_def seconds_def)
  then show ?thesis
    by (simp add: decimate_240 synthesize_late last_sample_240 generate_late)
qed

text \<open>
  C3, amended. If an interval is still open after the last sample, the run emits it as the
  final shadow interval, from its start (the timestamp of a sample) to the timestamp of the
  last decimated epoch, \<^verbatim>\<open>epoches[-1]['date']\<close>. When the epochs strictly increase, that end
  lies after every sample, the last one included.
\<close>

theorem flush_closes_at_last_epoch:
  assumes "synthesize E curve epoches = Inr s" and "shadow_start s = Some b"
  shows "trajectory E curve epoches =
           Inr (sat s, shadow_intervals s @ [interval b (date (last epoches))])
       \<and> b \<in> set (sample_dates epoches)
       \<and> (sorted_wrt (<) (map date epoches) \<longrightarrow>
            (\<forall>d\<in>set (sample_dates epoches). d < date (last epoches)))"
proof -
  have b: "b \<in> set (sample_dates epoches)"
    using synthesize_start_in [OF assms(1)] assms(2) by (simp add: start_in_def)
  then have "epoches \<noteq> []" by (auto simp: sample_dates_def)
  with assms have "trajectory E curve epoches =
           Inr (sat s, shadow_intervals s @ [interval b (date (last epoches))])"
    by (simp add: trajectory_def flush_def)
  with b show ?thesis by (auto dest: samples_before_last)
qed

text \<open>
  The instance on the decimated epochs t0 and t0 + 240 s, with the shadow test false at t0
  and true at the 47 later samples: the one interval is [t0 + 5 s, t0 + 240 s].
\<close>

theorem flush_closes_at_last_epoch_witness:
  "decimate strptime3 raw240 = Inr [epoch_at t0, epoch_at (t0 + seconds 240)]
   \<and> synthesize late_shadow_env flat_curve [epoch_at t0, epoch_at (t0 + seconds 240)] =
       Inr \<lparr>sat = [point t0 (6771, 0, 0) 400], shadow_intervals = [],
            shadow_start = Some (t0 + seconds 5)\<rparr>
   \<and> trajectory late_shadow_env flat_curve [epoch_at t0, epoch_at (t0 + seconds 240)] =
       Inr ([point t0 (6771, 0, 0) 400], [interval (t0 + seconds 5) (t0 + seconds 240)])
   \<and> sorted_wrt (<) (map date [epoch_at t0, epoch_at (t0 + seconds 240)])
   \<and> t0 + seconds 5 \<in> set (sample_dates [epoch_at t0, epoch_at (t0 + seconds 240)])
   \<and> last (sample_dates [epoch_at t0, epoch_at (t0 + seconds 240)]) = t0 + seconds 235"
proof -
  have srt: "sorted_wrt (<) (map date [epoch_at t0, epoch_at (t0 + seconds 240)])"
    by (simp add: seconds_def)
  have st: "shadow_start \<lparr>sat = [point t0 (6771, 0, 0) 400], shadow_intervals = [],
          shadow_start = Some (t0 + seconds 5)\<rparr> = Some (t0 + seconds 5)" by simp
  show ?thesis
    using flush_closes_at_last_epoch [OF synthesize_late st] srt synthesize_late
      decimate_240 last_sample_240
    by simp
qed

subsection \<open>Persistence and regeneration\<close>

lemma sequence_map_ok:
  assumes "\<forall>x\<in>set xs. \<exists>j. f x = Inr j \<and> g j = x"
  shows "\<exists>js. sequence (map f xs) = Inr js \<and> map g js = xs"
  using assms
proof (induction xs)
  case Nil
  then show ?case by simp
next
  case (Cons x xs)
  then obtain j js where "f x = Inr j" "g j = x" "sequence (map f xs) = Inr js" "map g js = xs"
    by auto
  then show ?case by simp
qed

lemma deserialize_hook_item:
  "json_datetime_deserialize fi dct = PDict (map (hook_item fi) dct)"
  by (auto simp: json_datetime_deserialize_def hook_item_def fix_date_def
      split: pyval.splits option.splits)

lemma roundtrips_dump_load:
  assumes "roundtrips isof fi v flag"
  shows "\<exists>j. dumps (Some (json_datetime_serialize isof)) v = Inr j \<and>
             (if flag then fix_date fi (loads (Some (json_datetime_deserialize fi)) j)
              else loads (Some (json_datetime_deserialize fi)) j) = v"
  using assms
proof (induction v arbitrary: flag)
  case PNone
  then show ?case by (simp add: fix_date_def)
next
  case (PStr s)
  then show ?case by (simp add: fix_date_def split: if_splits)
next
  case (PNum x)
  then show ?case by (simp add: fix_date_def)
next
  case (PDate d)
  then show ?case
    by (simp add: fix_date_def encode_default_def json_datetime_serialize_def)
next
  case PObject
  then show ?case by simp
next
  case (PList xs)
  let ?D = "dumps (Some (json_datetime_serialize isof))"
  let ?L = "loads (Some (json_datetime_deserialize fi))"
  from PList.prems have "\<forall>x\<in>set xs. roundtrips isof fi x False"
    by (simp add: list_all_iff)
  with PList.IH have "\<forall>x\<in>set xs. \<exists>j. ?D x = Inr j \<and> ?L j = x"
    by fastforce
  from sequence_map_ok [OF this] obtain js where
    "sequence (map ?D xs) = Inr js" "map ?L js = xs" by blast
  then show ?case by (simp add: fix_date_def)
next
  case (PDict kvs)
  let ?D = "dumps (Some (json_datetime_serialize isof))"
  let ?L = "loads (Some (json_datetime_deserialize fi))"
  let ?f = "\<lambda>kv. bind_err (?D (snd kv)) (\<lambda>j. Inr (fst kv, j))"
  let ?g = "\<lambda>kj. hook_item fi (fst kj, ?L (snd kj))"
  have "\<forall>kv\<in>set kvs. \<exists>kj. ?f kv = Inr kj \<and> ?g kj = kv"
  proof
    fix kv assume kv: "kv \<in> set kvs"
    obtain k v where [simp]: "kv = (k, v)" by (cases kv)
    from PDict.prems kv have "roundtrips isof fi v (k = ''date'')"
      by (auto simp: list_all_iff)
    with PDict.IH [of kv v "k = ''date''"] kv obtain j where
      "?D v = Inr j" "(if k = ''date'' then fix_date fi (?L j) else ?L j) = v"
      by auto
    then show "\<exists>kj. ?f kv = Inr kj \<and> ?g kj = kv"
      by (auto simp: hook_item_def)
  qed
  from sequence_map_ok [OF this] obtain js where
    js: "sequence (map ?f kvs) = Inr js" "map ?g js = kvs" by blast
  have "map (hook_item fi) (map (map_prod id ?L) js) = map ?g js"
    by (simp add: map_prod_def case_prod_beta)
  with js show ?case
    by (simp add: encode_items_def comp_def deserialize_hook_item fix_date_def)
qed

lemma plain_dump_load:
  assumes "plain v"
  shows "\<exists>j. dumps None v = Inr j \<and> loads None j = v"
  using assms
proof (induction v)
  case (PList xs)
  then have "\<forall>x\<in>set xs. \<exists>j. dumps None x = Inr j \<and> loads None j = x"
    by (simp add: list_all_iff)
  from sequence_map_ok [OF this] obtain js where
    "sequence (map (dumps None) xs) = Inr js" "map (loads None) js = xs" by blast
  then show ?case by simp
next
  case (PDict kvs)
  let ?f = "\<lambda>kv. bind_err (dumps None (snd kv)) (\<lambda>j. Inr (fst kv, j))"
  let ?g = "map_prod id (loads None)"
  have "\<forall>kv\<in>set kvs. \<exists>kj. ?f kv = Inr kj \<and> ?g kj = kv"
  proof
    fix kv assume kv: "kv \<in> set kvs"
    obtain k v where [simp]: "kv = (k, v)" by (cases kv)
    from PDict.prems kv have "plain v" by (auto simp: list_all_iff)
    with PDict.IH [of kv v] kv obtain j where "dumps None v = Inr j" "loads None j = v"
      by auto
    then show "\<exists>kj. ?f kv = Inr kj \<and> ?g kj = kv" by auto
  qed
  from sequence_map_ok [OF this] obtain js where
    js: "sequence (map ?f kvs) = Inr js" "map ?g js = kvs" by blast
  then show ?case
    by (simp add: encode_items_def comp_def)
qed simp_all

text \<open>
  C7. When the three writes succeed, \<^verbatim>\<open>save_data\<close> followed by \<^verbatim>\<open>load_data\<close> gives back
  the points and the shadow intervals that were saved, and puts them into the cache; the
  timestamp read back is the time of the save. This holds for every record whose
  datetimes sit under the key \<^verbatim>\<open>date\<close> of a dictionary and are read back by
  \<^verbatim>\<open>fromisoformat\<close> from what \<^verbatim>\<open>isoformat\<close> wrote (to the microsecond, so to the second),
  and whose shadow intervals are plain numbers.
\<close>

theorem save_then_load:
  assumes "write_fault E SatFile = None" and "write_fault E ShadowFile = None"
    and "write_fault E TimestampFile = None"
    and "roundtrips (isoformat E) (fromisoformat E) data False"
    and "plain intervals"
    and "fromisoformat E (strip (isoformat E (now_save E))) = Some (now_save E)"
  shows "snd (save_data E data intervals st) = True
       \<and> snd (load_data E (fst (save_data E data intervals st))) =
           (data, intervals, PDate (now_save E))
       \<and> sat_data_cache (fst (load_data E (fst (save_data E data intervals st)))) = data
       \<and> shadow_intervals_cache (fst (load_data E (fst (save_data E data intervals st)))) =
           intervals"
proof -
  from roundtrips_dump_load [OF assms(4)] obtain j1 where
    j1: "dumps (Some (json_datetime_serialize (isoformat E))) data = Inr j1"
        "loads (Some (json_datetime_deserialize (fromisoformat E))) j1 = data"
    by auto
  from plain_dump_load [OF assms(5)] obtain j2 where
    j2: "dumps None intervals = Inr j2" "loads None j2 = intervals"
    by auto
  have saved: "save_data E data intervals st =
      (st\<lparr>SAT_DATA_FILE := Holds j1, SHADOW_FILE := Holds j2,
          TIMESTAMP_FILE := Holds (isoformat E (now_save E))\<rparr>, True)"
    using assms(1-3) j1(1) j2(1) by (simp add: save_data_def write_file_def Let_def)
  show ?thesis
    using assms(6) j1(2) j2(2)
    by (simp add: saved load_data_def read_timestamp_def read_json_def)
qed

lemma strip_now: "strip ''2024-01-01T00:10:00+00:00'' = ''2024-01-01T00:10:00+00:00''"
  by (simp add: strip_def isspace_def)

lemma strip_t0: "strip ''2024-01-01T00:00:00+00:00'' = ''2024-01-01T00:00:00+00:00''"
  by (simp add: strip_def isspace_def)

theorem save_then_load_witness:
  "snd (save_data good_env (PList new_points) (PList new_intervals) cold_state) = True
   \<and> snd (load_data good_env
            (fst (save_data good_env (PList new_points) (PList new_intervals) cold_state))) =
       (PList [point t0 (6771, 0, 0) 400],
        PList [interval (t0 + seconds 105) (t0 + seconds 205)],
        PDate (t0 + seconds 600))"
proof -
  have w: "write_fault good_env SatFile = None" "write_fault good_env ShadowFile = None"
    "write_fault good_env TimestampFile = None"
    by (simp_all add: good_env_def)
  have r: "roundtrips (isoformat good_env) (fromisoformat good_env) (PList new_points) False"
    by (simp add: new_points_def point_def good_env_def)
  have p: "plain (PList new_intervals)"
    by (simp add: new_intervals_def interval_def)
  have n: "fromisoformat good_env (strip (isoformat good_env (now_save good_env))) =
             Some (now_save good_env)"
    by (simp add: good_env_def seconds_def strip_now)
  have "now_save good_env = t0 + seconds 600" by (simp add: good_env_def)
  then show ?thesis
    using save_then_load [OF w r p n, of cold_state]
    by (simp add: new_points_def new_intervals_def)
qed

lemma first_generation_files:
  "first_generation =
     cold_state\<lparr>SAT_DATA_FILE :=
                  Holds (JArray [JObject [(''date'', JString ''2024-01-01T00:00:00+00:00''),
                                          (''location'', JArray [JNumber 0, JNumber 6771, JNumber 0]),
                                          (''altitude'', JNumber 400)]]),
                SHADOW_FILE :=
                  Holds (JArray [JArray [JNumber (timestamp t0),
                                         JNumber (timestamp (t0 + seconds 5))]]),
                TIMESTAMP_FILE := Holds ''2024-01-01T00:00:00+00:00''\<rparr>"
  by (simp add: first_generation_def save_data_def write_file_def Let_def good_env_def
      old_points_def old_intervals_def point_def interval_def encode_items_def
      encode_default_def json_datetime_serialize_def)

lemma torn_state_files:
  "torn_state =
     first_generation\<lparr>SAT_DATA_FILE :=
                  Holds (JArray [JObject [(''date'', JString ''2024-01-01T00:00:00+00:00''),
                                          (''location'', JArray [JNumber 6771, JNumber 0, JNumber 0]),
                                          (''altitude'', JNumber 400)]]),
                logged := [Error ''Error saving data'' (Some IOError)]\<rparr>
   \<and> snd (save_data shadow_fault_env (PList new_points) (PList new_intervals) first_generation)
       = False"
  by (simp add: torn_state_def first_generation_files save_data_def write_file_def Let_def
      shadow_fault_env_def good_env_def cold_state_def
      new_points_def new_intervals_def point_def interval_def encode_items_def
      encode_default_def json_datetime_serialize_def)

text \<open>
  C4, as stated, fails: after a first generation was saved, a second save whose write of
  the shadow file fails leaves the points of the second generation beside the shadow
  intervals and the timestamp of the first, and \<^verbatim>\<open>load_data\<close> reads that mix.
\<close>

theorem persist_mix_counterexample:
  "snd (load_data good_env first_generation) = (PList old_points, PList old_intervals, PDate t0)
   \<and> snd (save_data shadow_fault_env (PList new_points) (PList new_intervals) first_generation)
       = False
   \<and> snd (load_data good_env torn_state) = (PList new_points, PList old_intervals, PDate t0)
   \<and> new_points \<noteq> old_points"
proof -
  have a: "snd (load_data good_env first_generation) =
             (PList old_points, PList old_intervals, PDate t0)"
    by (simp add: first_generation_files load_data_def read_timestamp_def read_json_def
        cold_state_def good_env_def strip_t0 json_datetime_deserialize_def
        old_points_def old_intervals_def point_def interval_def)
  have b: "snd (load_data good_env torn_state) =
             (PList new_points, PList old_intervals, PDate t0)"
    by (simp add: torn_state_files first_generation_files load_data_def read_timestamp_def
        read_json_def cold_state_def good_env_def strip_t0 json_datetime_deserialize_def
        new_points_def old_intervals_def point_def interval_def)
  have c: "new_points \<noteq> old_points"
    by (simp add: new_points_def old_points_def point_def)
  show ?thesis using a b c torn_state_files by simp
qed

lemma save_data_steps:
  assumes "save_data E data intervals st = (st', ok)"
  obtains
    (first) e f1 where
      "write_file (write_fault E SatFile)
         (dumps (Some (json_datetime_serialize (isoformat E))) data) (SAT_DATA_FILE st)
         = (f1, Some e)"
      "st' = st\<lparr>SAT_DATA_FILE := f1,
                logged := logged st @ [Error ''Error saving data'' (Some e)]\<rparr>" "\<not> ok"
  | (second) e f1 f2 where
      "write_file (write_fault E SatFile)
         (dumps (Some (json_datetime_serialize (isoformat E))) data) (SAT_DATA_FILE st)
         = (f1, None)"
      "write_file (write_fault E ShadowFile) (dumps None intervals) (SHADOW_FILE st)
         = (f2, Some e)"
      "st' = st\<lparr>SAT_DATA_FILE := f1, SHADOW_FILE := f2,
                logged := logged st @ [Error ''Error saving data'' (Some e)]\<rparr>" "\<not> ok"
  | (third) e f1 f2 f3 where
      "write_file (write_fault E SatFile)
         (dumps (Some (json_datetime_serialize (isoformat E))) data) (SAT_DATA_FILE st)
         = (f1, None)"
      "write_file (write_fault E ShadowFile) (dumps None intervals) (SHADOW_FILE st)
         = (f2, None)"
      "write_file (write_fault E TimestampFile) (Inr (isoformat E (now_save E)))
         (TIMESTAMP_FILE st) = (f3, Some e)"
      "st' = st\<lparr>SAT_DATA_FILE := f1, SHADOW_FILE := f2, TIMESTAMP_FILE := f3,
                logged := logged st @ [Error ''Error saving data'' (Some e)]\<rparr>" "\<not> ok"
  | (all_written) f1 f2 f3 where
      "write_file (write_fault E SatFile)
         (dumps (Some (json_datetime_serialize (isoformat E))) data) (SAT_DATA_FILE st)
         = (f1, None)"
      "write_file (write_fault E ShadowFile) (dumps None intervals) (SHADOW_FILE st)
         = (f2, None)"
      "write_file (write_fault E TimestampFile) (Inr (isoformat E (now_save E)))
         (TIMESTAMP_FILE st) = (f3, None)"
      "st' = st\<lparr>SAT_DATA_FILE := f1, SHADOW_FILE := f2, TIMESTAMP_FILE := f3\<rparr>" "ok"
proof -
  obtain f1 r1 where w1: "write_file (write_fault E SatFile)
         (dumps (Some (json_datetime_serialize (isoformat E))) data) (SAT_DATA_FILE st)
         = (f1, r1)" by (cases "write_file (write_fault E SatFile)
         (dumps (Some (json_datetime_serialize (isoformat E))) data) (SAT_DATA_FILE st)")
  obtain f2 r2 where w2: "write_file (write_fault E ShadowFile) (dumps None intervals)
         (SHADOW_FILE st) = (f2, r2)"
    by (cases "write_file (write_fault E ShadowFile) (dumps None intervals) (SHADOW_FILE st)")
  obtain f3 r3 where w3: "write_file (write_fault E TimestampFile)
         (Inr (isoformat E (now_save E))) (TIMESTAMP_FILE st) = (f3, r3)"
    by (cases "write_file (write_fault E TimestampFile)
         (Inr (isoformat E (now_save E))) (TIMESTAMP_FILE st)")
  show ?thesis
  proof (cases r1)
    case (Some e)
    with assms w1 show ?thesis
      by (intro first) (auto simp: save_data_def Let_def)
  next
    case r1: None
    show ?thesis
    proof (cases r2)
      case (Some e)
      with assms w1 w2 r1 show ?thesis
        by (intro second) (auto simp: save_data_def Let_def)
    next
      case r2: None
      show ?thesis
      proof (cases r3)
        case (Some e)
        with assms w1 w2 w3 r1 r2 show ?thesis
          by (intro third) (auto simp: save_data_def Let_def)
      next
        case None
        with assms w1 w2 w3 r1 r2 show ?thesis
          by (intro all_written) (auto simp: save_data_def Let_def)
      qed
    qed
  qed
qed

lemma save_data_caches:
  assumes "save_data E data intervals st = (st', ok)"
  shows "sat_data_cache st' = sat_data_cache st"
    and "shadow_intervals_cache st' = shadow_intervals_cache st"
    and "updated_at_cache st' = updated_at_cache st"
  by (cases rule: save_data_steps [OF assms]; simp)+

lemma save_data_logged:
  assumes "save_data E data intervals st = (st', ok)"
  shows "if ok then logged st' = logged st
         else \<exists>e. logged st' = logged st @ [Error ''Error saving data'' (Some e)]"
  by (cases rule: save_data_steps [OF assms]; simp)

lemma write_file_result:
  assumes "write_file flt content f = (f', r)"
  shows "if write_ok flt content then r = None \<and> holds content f'
         else (\<exists>e. r = Some e) \<and> f' = failed_write flt f"
  using assms
  by (auto simp: write_file_def holds_def write_ok_def failed_write_def
      split: option.splits fault.splits sum.splits)

lemma write_ok_simps [simp]:
  "write_ok flt (Inr c) = (flt = None)" "write_ok flt (Inl e) = False"
  by (simp_all add: write_ok_def)

text \<open>
  C4, amended. \<^verbatim>\<open>save_data\<close> writes the three files one after the other, with no
  transaction. A write succeeds when the file can be opened and written and its content can
  be produced. When the three writes succeed, the three files hold the new generation,
  nothing is logged and the result is \<^verbatim>\<open>True\<close>. When a write fails, the error is logged,
  the result is \<^verbatim>\<open>False\<close>, the files written before hold the new generation, the file whose
  write failed is as it was (it could not be opened) or partly written, and the files after
  it are as they were. The cache in memory is not touched.
\<close>

theorem save_data_outcome:
  assumes "save_data E data intervals st = (st', ok)"
  shows "sat_data_cache st' = sat_data_cache st
       \<and> shadow_intervals_cache st' = shadow_intervals_cache st
       \<and> updated_at_cache st' = updated_at_cache st
       \<and> ok = (write_ok (write_fault E SatFile)
                   (dumps (Some (json_datetime_serialize (isoformat E))) data)
                \<and> write_ok (write_fault E ShadowFile) (dumps None intervals)
                \<and> write_ok (write_fault E TimestampFile)
                     (Inr (isoformat E (now_save E)) :: error + string))
       \<and> (if ok then logged st' = logged st
           else \<exists>e. logged st' = logged st @ [Error ''Error saving data'' (Some e)])
       \<and> (if write_ok (write_fault E SatFile)
                (dumps (Some (json_datetime_serialize (isoformat E))) data)
           then holds (dumps (Some (json_datetime_serialize (isoformat E))) data)
                  (SAT_DATA_FILE st')
           else SAT_DATA_FILE st' = failed_write (write_fault E SatFile) (SAT_DATA_FILE st))
       \<and> (if write_ok (write_fault E SatFile)
                (dumps (Some (json_datetime_serialize (isoformat E))) data)
           then (if write_ok (write_fault E ShadowFile) (dumps None intervals)
                 then holds (dumps None intervals) (SHADOW_FILE st')
                 else SHADOW_FILE st' =
                        failed_write (write_fault E ShadowFile) (SHADOW_FILE st))
           else SHADOW_FILE st' = SHADOW_FILE st)
       \<and> (if write_ok (write_fault E SatFile)
                (dumps (Some (json_datetime_serialize (isoformat E))) data)
              \<and> write_ok (write_fault E ShadowFile) (dumps None intervals)
           then (if write_ok (write_fault E TimestampFile)
                      (Inr (isoformat E (now_save E)) :: error + string)
                 then holds (Inr (isoformat E (now_save E))) (TIMESTAMP_FILE st')
                 else TIMESTAMP_FILE st' =
                        failed_write (write_fault E TimestampFile) (TIMESTAMP_FILE st))
           else TIMESTAMP_FILE st' = TIMESTAMP_FILE st)"
proof -
  let ?c1 = "dumps (Some (json_datetime_serialize (isoformat E))) data"
  let ?c2 = "dumps None intervals"
  let ?c3 = "Inr (isoformat E (now_save E)) :: error + string"
  obtain f1 r1 where w1: "write_file (write_fault E SatFile) ?c1 (SAT_DATA_FILE st) = (f1, r1)"
    by (cases "write_file (write_fault E SatFile) ?c1 (SAT_DATA_FILE st)")
  obtain f2 r2 where w2: "write_file (write_fault E ShadowFile) ?c2 (SHADOW_FILE st) = (f2, r2)"
    by (cases "write_file (write_fault E ShadowFile) ?c2 (SHADOW_FILE st)")
  obtain f3 r3 where
    w3: "write_file (write_fault E TimestampFile) ?c3 (TIMESTAMP_FILE st) = (f3, r3)"
    by (cases "write_file (write_fault E TimestampFile) ?c3 (TIMESTAMP_FILE st)")
  note res = write_file_result [OF w1] write_file_result [OF w2] write_file_result [OF w3]
  show ?thesis
  proof (cases r1)
    case (Some e)
    with assms w1 have "st' = st\<lparr>SAT_DATA_FILE := f1,
        logged := logged st @ [Error ''Error saving data'' (Some e)]\<rparr>" "\<not> ok"
      by (auto simp: save_data_def Let_def)
    with res(1) Some show ?thesis by (simp split: if_splits)
  next
    case r1: None
    show ?thesis
    proof (cases r2)
      case (Some e)
      with assms w1 w2 r1 have "st' = st\<lparr>SAT_DATA_FILE := f1, SHADOW_FILE := f2,
          logged := logged st @ [Error ''Error saving data'' (Some e)]\<rparr>" "\<not> ok"
        by (auto simp: save_data_def Let_def)
      with res(1,2) r1 Some show ?thesis by (simp split: if_splits)
    next
      case r2: None
      show ?thesis
      proof (cases r3)
        case (Some e)
        with assms w1 w2 w3 r1 r2 have "st' = st\<lparr>SAT_DATA_FILE := f1, SHADOW_FILE := f2,
            TIMESTAMP_FILE := f3,
            logged := logged st @ [Error ''Error saving data'' (Some e)]\<rparr>" "\<not> ok"
          by (auto simp: save_data_def Let_def)
        with res r1 r2 Some show ?thesis by (simp split: if_splits)
      next
        case None
        with assms w1 w2 w3 r1 r2 have
          "st' = st\<lparr>SAT_DATA_FILE := f1, SHADOW_FILE := f2, TIMESTAMP_FILE := f3\<rparr>" "ok"
          by (auto simp: save_data_def Let_def)
        with res r1 r2 None show ?thesis by (simp split: if_splits)
      qed
    qed
  qed
qed

lemma new_generation_dumps:
  "dumps (Some (json_datetime_serialize (isoformat good_env))) (PList new_points) =
     Inr (JArray [JObject [(''date'', JString ''2024-01-01T00:00:00+00:00''),
                           (''location'', JArray [JNumber 6771, JNumber 0, JNumber 0]),
                           (''altitude'', JNumber 400)]])"
  "dumps None (PList new_intervals) =
     Inr (JArray [JArray [JNumber (timestamp (t0 + seconds 105)),
                          JNumber (timestamp (t0 + seconds 205))]])"
  by (simp_all add: good_env_def new_points_def new_intervals_def point_def interval_def
      encode_items_def encode_default_def json_datetime_serialize_def)

theorem save_data_outcome_witness:
  "snd (save_data good_env (PList new_points) (PList new_intervals) cold_state) = True
   \<and> holds (dumps (Some (json_datetime_serialize (isoformat good_env))) (PList new_points))
        (SAT_DATA_FILE (fst (save_data good_env (PList new_points) (PList new_intervals)
                               cold_state)))
   \<and> holds (dumps None (PList new_intervals))
        (SHADOW_FILE (fst (save_data good_env (PList new_points) (PList new_intervals)
                             cold_state)))
   \<and> TIMESTAMP_FILE (fst (save_data good_env (PList new_points) (PList new_intervals)
                            cold_state)) = Holds ''2024-01-01T00:10:00+00:00''
   \<and> save_data shadow_fault_env (PList new_points) (PList new_intervals) first_generation =
       (torn_state, False)
   \<and> holds (dumps (Some (json_datetime_serialize (isoformat shadow_fault_env)))
               (PList new_points)) (SAT_DATA_FILE torn_state)
   \<and> SHADOW_FILE torn_state = SHADOW_FILE first_generation
   \<and> TIMESTAMP_FILE torn_state = TIMESTAMP_FILE first_generation
   \<and> sat_data_cache torn_state = sat_data_cache first_generation"
proof -
  define st1 where "st1 =
    cold_state\<lparr>SAT_DATA_FILE :=
                  Holds (JArray [JObject [(''date'', JString ''2024-01-01T00:00:00+00:00''),
                                          (''location'', JArray [JNumber 6771, JNumber 0, JNumber 0]),
                                          (''altitude'', JNumber 400)]]),
                SHADOW_FILE :=
                  Holds (JArray [JArray [JNumber (timestamp (t0 + seconds 105)),
                                         JNumber (timestamp (t0 + seconds 205))]]),
                TIMESTAMP_FILE := Holds ''2024-01-01T00:10:00+00:00''\<rparr>"
  define ok1 where "ok1 = True"
  have good: "save_data good_env (PList new_points) (PList new_intervals) cold_state = (st1, ok1)"
    by (simp add: st1_def ok1_def save_data_def write_file_def Let_def good_env_def
        new_points_def new_intervals_def point_def interval_def encode_items_def
        encode_default_def json_datetime_serialize_def seconds_def)
  have nf: "write_fault good_env SatFile = None" "write_fault good_env ShadowFile = None"
    "write_fault good_env TimestampFile = None"
    by (simp_all add: good_env_def)
  have w: "write_ok (write_fault good_env SatFile)
             (dumps (Some (json_datetime_serialize (isoformat good_env))) (PList new_points))"
    "write_ok (write_fault good_env ShadowFile) (dumps None (PList new_intervals))"
    "write_ok (write_fault good_env TimestampFile)
       (Inr (isoformat good_env (now_save good_env)) :: error + string)"
    by (simp_all only: new_generation_dumps write_ok_simps nf)
  have iso: "isoformat good_env (now_save good_env) = ''2024-01-01T00:10:00+00:00''"
    by (simp add: good_env_def seconds_def)
  have first: "ok1 = True
      \<and> holds (dumps (Some (json_datetime_serialize (isoformat good_env))) (PList new_points))
           (SAT_DATA_FILE st1)
      \<and> holds (dumps None (PList new_intervals)) (SHADOW_FILE st1)
      \<and> TIMESTAMP_FILE st1 = Holds ''2024-01-01T00:10:00+00:00''"
    using save_data_outcome [OF good] w iso
    by (simp add: holds_def split: stored.splits)
  have run: "save_data shadow_fault_env (PList new_points) (PList new_intervals) first_generation =
      (torn_state, False)"
    by (simp add: torn_state_def prod_eq_iff save_data_def write_file_def Let_def
        shadow_fault_env_def good_env_def new_points_def point_def encode_items_def
        encode_default_def json_datetime_serialize_def)
  have iso_eq: "isoformat shadow_fault_env = isoformat good_env"
    by (simp add: shadow_fault_env_def)
  have nf2: "write_fault shadow_fault_env SatFile = None"
    "write_fault shadow_fault_env ShadowFile = Some OpenFails"
    by (simp_all add: shadow_fault_env_def)
  have w2: "write_ok (write_fault shadow_fault_env SatFile)
             (dumps (Some (json_datetime_serialize (isoformat shadow_fault_env)))
                (PList new_points))"
    "\<not> write_ok (write_fault shadow_fault_env ShadowFile) (dumps None (PList new_intervals))"
    "failed_write (write_fault shadow_fault_env ShadowFile) (SHADOW_FILE first_generation) =
       SHADOW_FILE first_generation"
    by (simp_all only: iso_eq new_generation_dumps write_ok_simps nf2 failed_write_def)
       simp_all
  have second: "holds (dumps (Some (json_datetime_serialize (isoformat shadow_fault_env)))
               (PList new_points)) (SAT_DATA_FILE torn_state)
      \<and> SHADOW_FILE torn_state = SHADOW_FILE first_generation
      \<and> TIMESTAMP_FILE torn_state = TIMESTAMP_FILE first_generation
      \<and> sat_data_cache torn_state = sat_data_cache first_generation"
    using save_data_outcome [OF run] w2 by simp
  show ?thesis using first second run by (simp add: good)
qed

lemma sample_write_fault [simp]: "sample (E\<lparr>write_fault := w\<rparr>) = sample E"
  by (intro ext) (simp add: sample_def Let_def cong: if_cong)

lemma segment_write_fault [simp]: "segment (E\<lparr>write_fault := w\<rparr>) = segment E"
  by (intro ext) (simp add: segment_def)

lemma generate_write_fault [simp]: "generate (E\<lparr>write_fault := w\<rparr>) = generate E"
  by (simp add: generate_def trajectory_def synthesize_def)

text \<open>
  C5, amended. When the generation fails (fetch, parse or compute), \<^verbatim>\<open>get_sat_data\<close> logs
  the error, returns the empty list and leaves the cache and the files as they were. When
  the generation succeeds, the cache is replaced by the new record whether or not the save
  succeeded; a failed save is logged by \<^verbatim>\<open>save_data\<close> and not raised.
\<close>

theorem get_sat_data_swaps_the_cache:
  "(generate E = Inl e \<longrightarrow>
      get_sat_data E st =
        (st\<lparr>logged := logged st @ [Error ''Error generating satellite data'' (Some e)]\<rparr>, []))
   \<and> (generate E = Inr (points, intervals) \<longrightarrow>
        snd (get_sat_data E st) = points
        \<and> sat_data_cache (fst (get_sat_data E st)) = PList points
        \<and> shadow_intervals_cache (fst (get_sat_data E st)) = PList intervals
        \<and> updated_at_cache (fst (get_sat_data E st)) = PDate (now_cache E)
        \<and> (if snd (save_data E (PList points) (PList intervals) st)
            then logged (fst (get_sat_data E st)) = logged st
            else \<exists>e'. logged (fst (get_sat_data E st)) =
                         logged st @ [Error ''Error saving data'' (Some e')]))"
proof (intro conjI impI)
  assume "generate E = Inl e"
  then show "get_sat_data E st =
        (st\<lparr>logged := logged st @ [Error ''Error generating satellite data'' (Some e)]\<rparr>, [])"
    by (simp add: get_sat_data_def)
next
  assume g: "generate E = Inr (points, intervals)"
  obtain st1 saved where s: "save_data E (PList points) (PList intervals) st = (st1, saved)"
    by (cases "save_data E (PList points) (PList intervals) st")
  have run: "get_sat_data E st =
      (st1\<lparr>sat_data_cache := PList points, shadow_intervals_cache := PList intervals,
           updated_at_cache := PDate (now_cache E)\<rparr>, points)"
    by (simp add: get_sat_data_def g s)
  show "snd (get_sat_data E st) = points"
    "sat_data_cache (fst (get_sat_data E st)) = PList points"
    "shadow_intervals_cache (fst (get_sat_data E st)) = PList intervals"
    "updated_at_cache (fst (get_sat_data E st)) = PDate (now_cache E)"
    by (simp_all add: run)
  from save_data_logged [OF s] show "if snd (save_data E (PList points) (PList intervals) st)
            then logged (fst (get_sat_data E st)) = logged st
            else \<exists>e'. logged (fst (get_sat_data E st)) =
                         logged st @ [Error ''Error saving data'' (Some e')]"
    by (simp add: run s)
qed

lemma generate_sat_fault: "generate sat_fault_env = Inr (new_points, new_intervals)"
  by (simp add: sat_fault_env_def generate_good new_points_def new_intervals_def)

lemma save_sat_fault:
  "save_data sat_fault_env (PList new_points) (PList new_intervals) cached3 =
     (cached3\<lparr>logged := [Error ''Error saving data'' (Some IOError)]\<rparr>, False)"
  by (simp add: save_data_def write_file_def Let_def sat_fault_env_def good_env_def
      cached3_def cold_state_def)

text \<open>
  C5, as stated, fails: with a cache in memory and a points file that cannot be opened for
  writing, the save fails and the cache is replaced all the same.
\<close>

theorem swap_after_failed_persist_counterexample:
  "generate sat_fault_env = Inr (new_points, new_intervals)
   \<and> snd (save_data sat_fault_env (PList new_points) (PList new_intervals) cached3) = False
   \<and> sat_data_cache cached3 = PList points3
   \<and> sat_data_cache (fst (get_sat_data sat_fault_env cached3)) = PList new_points
   \<and> PList new_points \<noteq> PList points3"
proof -
  have "PList new_points \<noteq> PList points3"
    by (simp add: new_points_def points3_def)
  moreover have "sat_data_cache cached3 = PList points3" by (simp add: cached3_def)
  ultimately show ?thesis
    by (simp add: generate_sat_fault save_sat_fault get_sat_data_def)
qed

theorem get_sat_data_swaps_the_cache_witness:
  "generate failing_env = Inl FetchError
   \<and> get_sat_data failing_env cached3 =
       (cached3\<lparr>logged := [Error ''Error generating satellite data'' (Some FetchError)]\<rparr>, [])
   \<and> generate sat_fault_env = Inr (new_points, new_intervals)
   \<and> snd (save_data sat_fault_env (PList new_points) (PList new_intervals) cached3) = False
   \<and> sat_data_cache (fst (get_sat_data sat_fault_env cached3)) = PList new_points
   \<and> logged (fst (get_sat_data sat_fault_env cached3)) =
       [Error ''Error saving data'' (Some IOError)]"
proof -
  have f: "generate failing_env = Inl FetchError"
    by (simp add: generate_def failing_env_def)
  have l: "logged cached3 = []" by (simp add: cached3_def cold_state_def)
  have one: "get_sat_data failing_env cached3 =
       (cached3\<lparr>logged := [Error ''Error generating satellite data'' (Some FetchError)]\<rparr>, [])"
    using get_sat_data_swaps_the_cache
      [where E = failing_env and e = FetchError and st = cached3] f l by simp
  have two: "sat_data_cache (fst (get_sat_data sat_fault_env cached3)) = PList new_points"
    using get_sat_data_swaps_the_cache
      [where E = sat_fault_env and points = new_points and intervals = new_intervals
         and st = cached3]
      generate_sat_fault by simp
  have three: "logged (fst (get_sat_data sat_fault_env cached3)) =
       [Error ''Error saving data'' (Some IOError)]"
    by (simp add: get_sat_data_def generate_sat_fault save_sat_fault)
  show ?thesis using f one two three generate_sat_fault save_sat_fault by simp
qed

end
